theory Spec2Isabelle
  imports Main
begin

section \<open>Strings: the library functions used by the measure parser\<close>

text \<open>
  A Go string is a sequence of bytes, here a \<open>char list\<close>. \<open>strings.TrimSpace\<close> removes
  leading and trailing white space as \<open>unicode.IsSpace\<close> defines it; the runes in question
  are listed below by their UTF-8 encodings (six ASCII characters, U+0085, U+00A0, U+1680,
  U+2000 to U+200A, U+2028, U+2029, U+202F, U+205F and U+3000). UTF-8 is prefix free, so
  comparing encodings at the byte level agrees with decoding runes.
\<close>

definition space_runes :: "string list" where
  "space_runes =
     [[CHR 0x09], [CHR 0x0A], [CHR 0x0B], [CHR 0x0C], [CHR 0x0D], [CHR 0x20],
      [CHR 0xC2, CHR 0x85], [CHR 0xC2, CHR 0xA0],
      [CHR 0xE1, CHR 0x9A, CHR 0x80],
      [CHR 0xE2, CHR 0x80, CHR 0x80], [CHR 0xE2, CHR 0x80, CHR 0x81],
      [CHR 0xE2, CHR 0x80, CHR 0x82], [CHR 0xE2, CHR 0x80, CHR 0x83],
      [CHR 0xE2, CHR 0x80, CHR 0x84], [CHR 0xE2, CHR 0x80, CHR 0x85],
      [CHR 0xE2, CHR 0x80, CHR 0x86], [CHR 0xE2, CHR 0x80, CHR 0x87],
      [CHR 0xE2, CHR 0x80, CHR 0x88], [CHR 0xE2, CHR 0x80, CHR 0x89],
      [CHR 0xE2, CHR 0x80, CHR 0x8A],
      [CHR 0xE2, CHR 0x80, CHR 0xA8], [CHR 0xE2, CHR 0x80, CHR 0xA9],
      [CHR 0xE2, CHR 0x80, CHR 0xAF], [CHR 0xE2, CHR 0x81, CHR 0x9F],
      [CHR 0xE3, CHR 0x80, CHR 0x80]]"

definition leading_space :: "string \<Rightarrow> string option" where
  "leading_space s = List.find (\<lambda>w. take (length w) s = w) space_runes"

definition trailing_space :: "string \<Rightarrow> string option" where
  "trailing_space s = List.find (\<lambda>w. drop (length s - length w) s = w) space_runes"

lemma space_runes_nonempty: "w \<in> set space_runes \<Longrightarrow> w \<noteq> []"
  by (auto simp: space_runes_def)

lemma leading_space_Some: "leading_space s = Some w \<Longrightarrow> w \<noteq> [] \<and> length w \<le> length s"
  unfolding leading_space_def find_Some_iff
  by (metis space_runes_nonempty nth_mem length_take min.cobounded1)

lemma trailing_space_Some: "trailing_space s = Some w \<Longrightarrow> w \<noteq> [] \<and> length w \<le> length s"
  unfolding trailing_space_def find_Some_iff
  by (metis space_runes_nonempty nth_mem length_drop diff_le_self)

function TrimLeft :: "string \<Rightarrow> string" where
  "TrimLeft s = (case leading_space s of None \<Rightarrow> s | Some w \<Rightarrow> TrimLeft (drop (length w) s))"
  by pat_completeness auto
termination
proof (relation "measure length")
  fix s w assume "leading_space s = Some w"
  from leading_space_Some[OF this] show "(drop (length w) s, s) \<in> measure length"
    by (cases w) auto
qed simp

function TrimRight :: "string \<Rightarrow> string" where
  "TrimRight s = (case trailing_space s of None \<Rightarrow> s
                  | Some w \<Rightarrow> TrimRight (take (length s - length w) s))"
  by pat_completeness auto
termination
proof (relation "measure length")
  fix s w assume "trailing_space s = Some w"
  from trailing_space_Some[OF this] show "(take (length s - length w) s, s) \<in> measure length"
    by (cases w) auto
qed simp

declare TrimLeft.simps [simp del] TrimRight.simps [simp del]

definition TrimSpace :: "string \<Rightarrow> string" where
  "TrimSpace s = TrimRight (TrimLeft s)"

text \<open>
  \<open>strings.ToLower\<close>, on the ASCII letters. Go maps the other runes by the Unicode tables;
  no rune outside ASCII is mapped to a space, an \<open>o\<close> or an \<open>r\<close>, so the only use the parser
  makes of the result (does it contain \<open>" or "\<close>) is the same with bytes from 0x80 left alone.
\<close>

definition ToLower :: "string \<Rightarrow> string" where
  "ToLower s = map (\<lambda>c. if c \<in> set ''ABCDEFGHIJKLMNOPQRSTUVWXYZ''
                           then char_of (of_char c + (32::nat)) else c) s"

text \<open>\<open>strings.Contains s sub\<close>: \<open>sub\<close> occurs in \<open>s\<close> as a contiguous run of bytes.\<close>

fun Contains :: "string \<Rightarrow> string \<Rightarrow> bool" where
  "Contains [] sub = (sub = [])"
| "Contains (c # cs) sub = (take (length sub) (c # cs) = sub \<or> Contains cs sub)"

section \<open>Regular expressions with leftmost-first matching\<close>

text \<open>
  Go's \<open>regexp\<close> returns, among the matches that begin leftmost, the one a backtracking
  matcher finds first. \<open>run r th\<close> lists, in that order of preference, every way \<open>r\<close> can
  match a prefix of the text of thread \<open>th\<close>: each result is the text left over together
  with the capture groups recorded so far. An alternation prefers its left branch, the
  greedy operators prefer one more iteration. \<open>Space\<close> is \<open>\s\<close> (tab, line feed, form
  feed, carriage return, space), \<open>AnyNotNL\<close> is \<open>.\<close>, \<open>Eol\<close> is \<open>$\<close> without the multi-line
  flag.
\<close>

datatype re = Digit | Space | Lit char | AnyNotNL | Eol
  | Seq re re | Alt re re | Opt re | Star re | Group nat re

definition Plus :: "re \<Rightarrow> re" where
  "Plus r = Seq r (Star r)"

type_synonym thread = "string \<times> string list"

definition class_step :: "(char \<Rightarrow> bool) \<Rightarrow> thread \<Rightarrow> thread list" where
  "class_step p th = (case fst th of [] \<Rightarrow> [] | c # cs \<Rightarrow> if p c then [(cs, snd th)] else [])"

function run :: "re \<Rightarrow> thread \<Rightarrow> thread list" where
  "run Digit th = class_step (\<lambda>c. c \<in> set ''0123456789'') th"
| "run Space th = class_step (\<lambda>c. c \<in> set [CHR 0x09, CHR 0x0A, CHR 0x0C, CHR 0x0D, CHR 0x20]) th"
| "run (Lit x) th = class_step (\<lambda>c. c = x) th"
| "run AnyNotNL th = class_step (\<lambda>c. c \<noteq> CHR 0x0A) th"
| "run Eol th = (if fst th = [] then [th] else [])"
| "run (Seq a b) th = concat (map (run b) (run a th))"
| "run (Alt a b) th = run a th @ run b th"
| "run (Opt a) th = run a th @ [th]"
| "run (Star a) th =
     concat (map (\<lambda>th'. if length (fst th') < length (fst th) then run (Star a) th' else [])
                 (run a th)) @ [th]"
| "run (Group n a) th =
     map (\<lambda>th'. (fst th', (snd th')[n := take (length (fst th) - length (fst th')) (fst th)]))
         (run a th)"
  by pat_completeness auto
termination
  by (relation "measures [\<lambda>(r, th). size r, \<lambda>(r, th). length (fst th)]") auto

text \<open>
  \<open>FindStringSubmatch\<close> for an expression that starts with \<open>^\<close>: the match is tried at the
  start of the text only. The result is empty (Go's nil) when nothing matches, otherwise
  the whole match followed by the text of each group.
\<close>

definition FindStringSubmatch :: "re \<Rightarrow> nat \<Rightarrow> string \<Rightarrow> string list" where
  "FindStringSubmatch r ngroups s =
     (case run r (s, replicate (Suc ngroups) []) of
        [] \<Rightarrow> []
      | th # _ \<Rightarrow> (snd th)[0 := take (length s - length (fst th)) s])"

section \<open>The measure parser\<close>

text \<open>
  The expression compiled in \<open>parseMeasure\<close>:
  \<^verbatim>\<open>^([0-9]+(?:\s+[0-9]+/[0-9]+)?|[0-9]+/[0-9]+|[0-9]+(?:\.[0-9]+)?)(?:\s*)(.*)$\<close>
\<close>

definition measure_re :: re where
  "measure_re =
     Seq (Group 1
            (Alt (Seq (Plus Digit)
                      (Opt (Seq (Plus Space) (Seq (Plus Digit) (Seq (Lit CHR ''/'') (Plus Digit))))))
            (Alt (Seq (Plus Digit) (Seq (Lit CHR ''/'') (Plus Digit)))
                 (Seq (Plus Digit) (Opt (Seq (Lit CHR ''.'') (Plus Digit)))))))
    (Seq (Star Space) (Seq (Group 2 (Star AnyNotNL)) Eol))"

text \<open>
  \<open>parseMeasure\<close> returns two optional strings, the quantity and the unit; \<open>None\<close> is the
  nil pointer.
\<close>

definition parseMeasure :: "string \<Rightarrow> string option \<times> string option" where
  "parseMeasure m =
     (let s = TrimSpace m in
      if s = [] then (None, None)
      else if Contains s ''('' \<or> Contains (ToLower s) '' or '' then (Some s, None)
      else let mparts = FindStringSubmatch measure_re 2 s in
        if length mparts = 3 then
          (let q = TrimSpace (mparts ! 1); u = TrimSpace (mparts ! 2) in
           if u = [] then (Some q, None) else (Some q, Some u))
        else (Some s, None))"

section \<open>The meal store: values, errors and the services behind it\<close>

text \<open>
  Errors are values. \<open>ErrNoDocuments\<close> is \<open>mongo.ErrNoDocuments\<close>, \<open>RedisNil\<close> is
  \<open>redis.Nil\<close> (the reply for a key that is not there), \<open>Failure\<close> is any other error of
  a driver or of the operating system, and \<open>Wrapped ctx e\<close> is
  \<open>fmt.Errorf(ctx + ": %w", e)\<close>. \<open>Error\<close> is the message an error prints.
\<close>

datatype error = ErrNoDocuments | RedisNil | Failure string | Wrapped string error

fun Error :: "error \<Rightarrow> string" where
  "Error ErrNoDocuments = ''mongo: no documents in result''"
| "Error RedisNil = ''redis: nil''"
| "Error (Failure msg) = msg"
| "Error (Wrapped ctx e) = ctx @ '': '' @ Error e"

text \<open>
  The values of \<open>interface{}\<close> that occur: what \<open>encoding/json\<close> decodes (nil, strings,
  booleans, numbers as \<open>float64\<close>, here mantissa and binary exponent, slices and maps) and
  what the documents add (a \<open>time.Time\<close>, in nanoseconds; a BSON datetime as the
  driver decodes it, in milliseconds; and the object id the server gives a new
  document). \<open>M\<close> is \<open>map[string]interface{}\<close>, which is also \<open>bson.M\<close>.
\<close>

datatype val = VNil | VString string | VBool bool | VFloat64 int int
  | VSlice "val list" | VMap "string \<Rightarrow> val option" | VTime nat | VDateTime nat
  | VObjectID nat

type_synonym M = "string \<Rightarrow> val option"

text \<open>
  JSON values, and the bytes of a cache entry: the JSON text of a value, identified with
  that value, or bytes that are not JSON. \<open>encode\<close> is the value \<open>json.Marshal\<close> writes
  for a Go value: an object id is written as the string of its 24 hexadecimal digits, a
  time and a datetime as the string of the RFC 3339 text of the instant (\<open>tf\<close> gives that
  text for an instant in nanoseconds), everything else as the JSON value of the same
  shape. \<open>decode\<close> is the Go value \<open>json.Unmarshal\<close> stores in an \<open>interface{}\<close> for a
  JSON value. Strings are taken to be valid UTF-8, as those of a stored document and of
  decoded JSON are, so that they are written and read back unchanged.
\<close>

datatype json = JNull | JBool bool | JNumber int int | JString string
  | JArray "json list" | JObject "string \<Rightarrow> json option"

datatype bytes = JSONText json | OtherText string

fun hex :: "nat \<Rightarrow> nat \<Rightarrow> string" where
  "hex 0 n = []"
| "hex (Suc w) n = hex w (n div 16) @ [''0123456789abcdef'' ! (n mod 16)]"

primrec encode :: "(nat \<Rightarrow> string) \<Rightarrow> val \<Rightarrow> json" where
  "encode tf VNil = JNull"
| "encode tf (VString s) = JString s"
| "encode tf (VBool b) = JBool b"
| "encode tf (VFloat64 m x) = JNumber m x"
| "encode tf (VSlice xs) = JArray (map (encode tf) xs)"
| "encode tf (VMap f) = JObject (map_option (encode tf) \<circ> f)"
| "encode tf (VTime t) = JString (tf t)"
| "encode tf (VDateTime ms) = JString (tf (ms * 1000000))"
| "encode tf (VObjectID n) = JString (hex 24 n)"

primrec decode :: "json \<Rightarrow> val" where
  "decode JNull = VNil"
| "decode (JBool b) = VBool b"
| "decode (JNumber m x) = VFloat64 m x"
| "decode (JString s) = VString s"
| "decode (JArray xs) = VSlice (map decode xs)"
| "decode (JObject f) = VMap (map_option decode \<circ> f)"

text \<open>
  The values JSON has a shape for: nil, strings, booleans, numbers, and slices and maps
  of such values.
\<close>

inductive json_native :: "val \<Rightarrow> bool" where
  "json_native VNil"
| "json_native (VString s)"
| "json_native (VBool b)"
| "json_native (VFloat64 m x)"
| "(\<And>x. x \<in> set xs \<Longrightarrow> json_native x) \<Longrightarrow> json_native (VSlice xs)"
| "(\<And>k v. f k = Some v \<Longrightarrow> json_native v) \<Longrightarrow> json_native (VMap f)"

text \<open>\<open>m[k]\<close>: a key that is missing reads as nil.\<close>

definition index :: "M \<Rightarrow> string \<Rightarrow> val" where
  "index m k = (case m k of None \<Rightarrow> VNil | Some v \<Rightarrow> v)"

text \<open>
  The logger is a list of entries, or \<open>None\<close> for a nil \<open>*zap.SugaredLogger\<close>.
\<close>

datatype level = WarnLevel | ErrorLevel

datatype field = FString string | FError error

type_synonym log_entry = "level \<times> string \<times> (string \<times> field) list"

type_synonym logger = "log_entry list option"

definition Errorw :: "log_entry list \<Rightarrow> string \<Rightarrow> (string \<times> field) list \<Rightarrow> log_entry list" where
  "Errorw l msg kv = l @ [(ErrorLevel, msg, kv)]"

definition Warnw :: "log_entry list \<Rightarrow> string \<Rightarrow> (string \<times> field) list \<Rightarrow> log_entry list" where
  "Warnw l msg kv = l @ [(WarnLevel, msg, kv)]"

text \<open>
  The primary store, as the \<open>meals\<close> collection of the database: its documents in their
  natural order, the counter behind the object ids, whether the unique index on \<open>idMeal\<close>
  exists, and a schedule of faults. Every request to the server takes the head of the
  schedule: \<open>Some e\<close> makes the request fail with \<open>e\<close> and change nothing, \<open>None\<close> (or an
  exhausted schedule) lets it through.
\<close>

record mongo =
  docs :: "M list"
  next_id :: nat
  unique_idMeal :: bool
  faults :: "error option list"

definition take_fault :: "error option list \<Rightarrow> error option \<times> error option list" where
  "take_fault fs = (case fs of [] \<Rightarrow> (None, []) | f # fs' \<Rightarrow> (f, fs'))"

definition has_id :: "string \<Rightarrow> M \<Rightarrow> bool" where
  "has_id mid d = (case d ''idMeal'' of Some (VString x) \<Rightarrow> x = mid | _ \<Rightarrow> False)"

definition Ping :: "mongo \<Rightarrow> error option \<times> mongo" where
  "Ping c = (case take_fault (faults c) of (f, fs) \<Rightarrow> (f, c\<lparr>faults := fs\<rparr>))"

definition CreateOne :: "mongo \<Rightarrow> error option \<times> mongo" where
  "CreateOne c =
     (case take_fault (faults c) of
        (Some e, fs) \<Rightarrow> (Some e, c\<lparr>faults := fs\<rparr>)
      | (None, fs) \<Rightarrow> (None, c\<lparr>unique_idMeal := True, faults := fs\<rparr>))"

text \<open>
  What the collection holds for a Go value handed to the driver: a \<open>time.Time\<close> is
  stored as a BSON datetime, which keeps its milliseconds; the other values are stored
  as they are. A slice is a list here, so a nil slice and an empty one are the same
  value \<open>VSlice []\<close>, also in the stored form, where the driver writes null for the first
  and an empty array for the second.
\<close>

primrec bson :: "val \<Rightarrow> val" where
  "bson VNil = VNil"
| "bson (VString s) = VString s"
| "bson (VBool b) = VBool b"
| "bson (VFloat64 m x) = VFloat64 m x"
| "bson (VSlice xs) = VSlice (map bson xs)"
| "bson (VMap f) = VMap (map_option bson \<circ> f)"
| "bson (VTime t) = VDateTime (t div 1000000)"
| "bson (VDateTime ms) = VDateTime ms"
| "bson (VObjectID n) = VObjectID n"

definition bson_doc :: "M \<Rightarrow> M" where
  "bson_doc doc = map_option bson \<circ> doc"

text \<open>
  \<open>UpdateOne\<close> with the filter \<open>{idMeal: id}\<close>, the update \<open>{$set: doc}\<close> and the upsert
  option. The driver sends the document in its stored form, and the server applies the
  update (\<open>update_one\<close>): the first document whose \<open>idMeal\<close> is \<open>id\<close> gets the fields of
  \<open>doc\<close> set and keeps its other fields; when there is none, a document is inserted that
  has a fresh \<open>_id\<close>, the field of the filter and the fields of \<open>doc\<close>.
\<close>

fun set_first :: "string \<Rightarrow> M \<Rightarrow> M list \<Rightarrow> M list option" where
  "set_first mid doc [] = None"
| "set_first mid doc (d # ds) =
     (if has_id mid d then Some ((d ++ doc) # ds)
      else map_option ((#) d) (set_first mid doc ds))"

definition update_one :: "mongo \<Rightarrow> string \<Rightarrow> M \<Rightarrow> error option \<times> mongo" where
  "update_one c mid doc =
     (case take_fault (faults c) of
        (Some e, fs) \<Rightarrow> (Some e, c\<lparr>faults := fs\<rparr>)
      | (None, fs) \<Rightarrow>
          (case set_first mid doc (docs c) of
             Some ds \<Rightarrow> (None, c\<lparr>docs := ds, faults := fs\<rparr>)
           | None \<Rightarrow>
               (None, c\<lparr>docs := docs c @ [[''_id'' \<mapsto> VObjectID (next_id c),
                                            ''idMeal'' \<mapsto> VString mid] ++ doc],
                         next_id := Suc (next_id c), faults := fs\<rparr>)))"

definition UpdateOne :: "mongo \<Rightarrow> string \<Rightarrow> M \<Rightarrow> error option \<times> mongo" where
  "UpdateOne c mid doc = update_one c mid (bson_doc doc)"

text \<open>\<open>FindOne\<close> with the filter \<open>{idMeal: id}\<close>, decoded into a map.\<close>

definition FindOne :: "mongo \<Rightarrow> string \<Rightarrow> (error + M) \<times> mongo" where
  "FindOne c mid =
     (case take_fault (faults c) of
        (Some e, fs) \<Rightarrow> (Inl e, c\<lparr>faults := fs\<rparr>)
      | (None, fs) \<Rightarrow>
          (case List.find (has_id mid) (docs c) of
             None \<Rightarrow> (Inl ErrNoDocuments, c\<lparr>faults := fs\<rparr>)
           | Some d \<Rightarrow> (Inr d, c\<lparr>faults := fs\<rparr>)))"

text \<open>
  The cache: for each key the bytes stored and the instant at which they expire, and a
  schedule of faults like that of the primary store. An entry is seen until its expiry.
\<close>

record redis =
  entries :: "string \<Rightarrow> (bytes \<times> nat) option"
  rfaults :: "error option list"

definition redis_Ping :: "redis \<Rightarrow> error option \<times> redis" where
  "redis_Ping r = (case take_fault (rfaults r) of (f, fs) \<Rightarrow> (f, r\<lparr>rfaults := fs\<rparr>))"

definition redis_Get :: "redis \<Rightarrow> string \<Rightarrow> nat \<Rightarrow> (error + bytes) \<times> redis" where
  "redis_Get r key now =
     (case take_fault (rfaults r) of
        (Some e, fs) \<Rightarrow> (Inl e, r\<lparr>rfaults := fs\<rparr>)
      | (None, fs) \<Rightarrow>
          (case entries r key of
             None \<Rightarrow> (Inl RedisNil, r\<lparr>rfaults := fs\<rparr>)
           | Some (b, expiry) \<Rightarrow>
               if now < expiry then (Inr b, r\<lparr>rfaults := fs\<rparr>)
               else (Inl RedisNil, r\<lparr>rfaults := fs\<rparr>)))"

definition redis_Set :: "redis \<Rightarrow> string \<Rightarrow> bytes \<Rightarrow> nat \<Rightarrow> nat \<Rightarrow> error option \<times> redis" where
  "redis_Set r key b ttl now =
     (case take_fault (rfaults r) of
        (Some e, fs) \<Rightarrow> (Some e, r\<lparr>rfaults := fs\<rparr>)
      | (None, fs) \<Rightarrow> (None, r\<lparr>entries := (entries r)(key \<mapsto> (b, now + ttl)), rfaults := fs\<rparr>))"

text \<open>\<open>time.Hour\<close>, in nanoseconds.\<close>

definition Hour :: nat where
  "Hour = 3600000000000"

text \<open>
  What the code takes from its libraries and from the machine it runs on: \<open>fmt.Sprint\<close>
  on a value that is neither nil nor a string, the RFC 3339 text of a time,
  \<open>json.Unmarshal\<close> of a file's bytes into a slice of maps, opening and reading a file,
  and the servers found at an address.
\<close>

record env =
  Sprint :: "val \<Rightarrow> string"
  RFC3339 :: "nat \<Rightarrow> string"
  Unmarshal_slice :: "string \<Rightarrow> error + M list"
  os_Open :: "string \<Rightarrow> error + nat"
  io_ReadAll :: "nat \<Rightarrow> error + string"
  mongo_Connect :: "string \<Rightarrow> string \<Rightarrow> error + mongo"
  redis_NewClient :: "string \<Rightarrow> redis"

text \<open>
  \<open>json.Marshal\<close> of a map, which writes an object, and \<open>json.Unmarshal\<close> of bytes into
  a map: an object gives the map of its decoded members, the text \<open>null\<close> leaves the map
  nil and is no error, every other JSON value and every text that is not JSON is an
  error. \<open>json_copy e d\<close> is the map read back from the text written for \<open>d\<close>.
\<close>

definition Marshal :: "env \<Rightarrow> M \<Rightarrow> error + bytes" where
  "Marshal e m = Inr (JSONText (JObject (map_option (encode (RFC3339 e)) \<circ> m)))"

definition Unmarshal :: "bytes \<Rightarrow> error + M option" where
  "Unmarshal b =
     (case b of
        JSONText (JObject f) \<Rightarrow> Inr (Some (map_option decode \<circ> f))
      | JSONText JNull \<Rightarrow> Inr None
      | JSONText _ \<Rightarrow> Inl (Failure ''json: cannot unmarshal into Go value of type map[string]interface {}'')
      | OtherText t \<Rightarrow> Inl (Failure ''invalid character looking for beginning of value''))"

definition json_copy :: "env \<Rightarrow> M \<Rightarrow> M" where
  "json_copy e d = map_option decode \<circ> (map_option (encode (RFC3339 e)) \<circ> d)"

section \<open>The store\<close>

record Store =
  db :: mongo
  rdb :: "redis option"
  log :: logger

definition toString :: "env \<Rightarrow> val \<Rightarrow> string \<times> bool" where
  "toString e v =
     (case v of VNil \<Rightarrow> ('''', False) | VString s \<Rightarrow> (s, True) | _ \<Rightarrow> (Sprint e v, True))"

definition mustString :: "env \<Rightarrow> val \<Rightarrow> string" where
  "mustString e v = fst (toString e v)"

text \<open>\<open>fmt.Sprintf("%d", n)\<close> for a number that is not negative.\<close>

fun itoa :: "nat \<Rightarrow> string" where
  "itoa n = (if n < 10 then [''0123456789'' ! n]
             else itoa (n div 10) @ [''0123456789'' ! (n mod 10)])"

declare itoa.simps [simp del]

text \<open>
  The loop of \<open>ImportFromFile\<close> that builds the ingredients, \<open>for i := 1; i <= 20; i++\<close>,
  with the slice built so far.
\<close>

function ingredients_loop :: "env \<Rightarrow> M \<Rightarrow> nat \<Rightarrow> val list \<Rightarrow> val list" where
  "ingredients_loop e m i ingredients =
     (if i \<le> 20 then
        (let inKey = ''strIngredient'' @ itoa i;
             msKey = ''strMeasure'' @ itoa i;
             inVal = fst (toString e (index m inKey));
             msVal = fst (toString e (index m msKey))
         in ingredients_loop e m (i + 1)
              (if inVal \<noteq> ''''
               then ingredients @ [VMap [''name'' \<mapsto> VString inVal, ''measure'' \<mapsto> VString msVal]]
               else ingredients))
      else ingredients)"
  by pat_completeness auto
termination
  by (relation "measure (\<lambda>(e, m, i, ingredients). 21 - i)") auto

declare ingredients_loop.simps [simp del]

text \<open>The document prepared for a record; \<open>now\<close> is what \<open>time.Now()\<close> returns.\<close>

definition meal_doc :: "env \<Rightarrow> M \<Rightarrow> string \<Rightarrow> nat \<Rightarrow> M" where
  "meal_doc e m mid now =
     [''idMeal'' \<mapsto> VString mid,
      ''strMeal'' \<mapsto> VString (mustString e (index m ''strMeal'')),
      ''strCategory'' \<mapsto> VString (mustString e (index m ''strCategory'')),
      ''strArea'' \<mapsto> VString (mustString e (index m ''strArea'')),
      ''strInstructions'' \<mapsto> VString (mustString e (index m ''strInstructions'')),
      ''strMealThumb'' \<mapsto> VString (mustString e (index m ''strMealThumb'')),
      ''strYoutube'' \<mapsto> VString (mustString e (index m ''strYoutube'')),
      ''ingredients'' \<mapsto> VSlice (ingredients_loop e m 1 []),
      ''raw'' \<mapsto> VMap m,
      ''updatedAt'' \<mapsto> VTime now]"

text \<open>\<open>id, _ := m["idMeal"].(string)\<close>: the empty string unless the value is a string.\<close>

definition idMeal_of :: "M \<Rightarrow> string" where
  "idMeal_of m = (case index m ''idMeal'' of VString x \<Rightarrow> x | _ \<Rightarrow> '''')"

text \<open>
  The clock. \<open>ImportFromFile\<close> calls \<open>time.Now()\<close> once for each record that it upserts,
  when it builds the document of the record. A clock is the sequence of the readings to
  come, in nanoseconds: \<open>clock 0\<close> is the next reading and \<open>shift n clock\<close> is the clock
  after \<open>n\<close> readings. \<open>reads raw\<close> is the number of readings a complete pass over the
  records \<open>raw\<close> takes.
\<close>

type_synonym clock = "nat \<Rightarrow> nat"

definition shift :: "nat \<Rightarrow> clock \<Rightarrow> clock" where
  "shift n clock = (\<lambda>i. clock (n + i))"

fun reads :: "M list \<Rightarrow> nat" where
  "reads [] = 0"
| "reads (m # raw) = (if idMeal_of m = '''' then reads raw else Suc (reads raw))"

text \<open>
  The loop over the records, \<open>for _, m := range raw\<close>. The result is the error returned,
  if any, and the store as the run leaves it. A record without an id is skipped before
  the clock is read.
\<close>

fun import_loop :: "env \<Rightarrow> clock \<Rightarrow> M list \<Rightarrow> Store \<Rightarrow> error option \<times> Store" where
  "import_loop e clock [] s = (None, s)"
| "import_loop e clock (m # raw) s =
     (let mid = idMeal_of m in
      if mid = '''' then import_loop e clock raw s
      else
        (case UpdateOne (db s) mid (meal_doc e m mid (clock 0)) of
           (Some err, c) \<Rightarrow>
             (Some err,
              s\<lparr>db := c,
                log := (case log s of None \<Rightarrow> None
                        | Some l \<Rightarrow> Some (Errorw l ''failed to upsert meal''
                                     [(''id'', FString mid), (''error'', FError err)]))\<rparr>)
         | (None, c) \<Rightarrow> import_loop e (shift 1 clock) raw (s\<lparr>db := c\<rparr>)))"

text \<open>The part of \<open>ImportFromFile\<close> before the loop: open, read, decode.\<close>

definition read_raw :: "env \<Rightarrow> string \<Rightarrow> error + M list" where
  "read_raw e path =
     (case os_Open e path of
        Inl err \<Rightarrow> Inl (Wrapped ''open file'' err)
      | Inr f \<Rightarrow>
          (case io_ReadAll e f of
             Inl err \<Rightarrow> Inl (Wrapped ''read file'' err)
           | Inr b \<Rightarrow>
               (case Unmarshal_slice e b of
                  Inl err \<Rightarrow> Inl (Wrapped ''unmarshal'' err)
                | Inr raw \<Rightarrow> Inr raw)))"

definition ImportFromFile :: "env \<Rightarrow> Store \<Rightarrow> string \<Rightarrow> clock \<Rightarrow> error option \<times> Store" where
  "ImportFromFile e s path clock =
     (case read_raw e path of
        Inl err \<Rightarrow> (Some err, s)
      | Inr raw \<Rightarrow> import_loop e clock raw s)"

text \<open>
  \<open>GetMealByID\<close>. \<open>cache_lookup\<close> is its first block, the attempt on the cache: the map
  decoded from the cached bytes when there is a cache, the read succeeds and the bytes
  decode, and nothing otherwise. The result of \<open>GetMealByID\<close> is an error, or the map
  returned, \<open>None\<close> for the nil map.
\<close>

definition cache_lookup :: "env \<Rightarrow> Store \<Rightarrow> string \<Rightarrow> nat \<Rightarrow> M option option \<times> redis option" where
  "cache_lookup e s key now =
     (case rdb s of
        None \<Rightarrow> (None, None)
      | Some r \<Rightarrow>
          (case redis_Get r key now of
             (Inl err, r') \<Rightarrow> (None, Some r')
           | (Inr b, r') \<Rightarrow>
               (case Unmarshal b of
                  Inl err \<Rightarrow> (None, Some r')
                | Inr out \<Rightarrow> (Some out, Some r'))))"

definition cache_populate :: "env \<Rightarrow> redis option \<Rightarrow> string \<Rightarrow> M \<Rightarrow> nat \<Rightarrow> redis option" where
  "cache_populate e rd key result now =
     (case rd of
        None \<Rightarrow> None
      | Some r \<Rightarrow>
          (case Marshal e result of
             Inl err \<Rightarrow> Some r
           | Inr bb \<Rightarrow> Some (snd (redis_Set r key bb (24 * Hour) now))))"

definition GetMealByID :: "env \<Rightarrow> Store \<Rightarrow> string \<Rightarrow> nat \<Rightarrow> (error + M option) \<times> Store" where
  "GetMealByID e s mid now =
     (let key = ''meal:'' @ mid in
      case cache_lookup e s key now of
        (Some out, rd) \<Rightarrow> (Inr out, s\<lparr>rdb := rd\<rparr>)
      | (None, rd) \<Rightarrow>
          (case FindOne (db s) mid of
             (Inl err, c) \<Rightarrow>
               if err = ErrNoDocuments then (Inr None, s\<lparr>db := c, rdb := rd\<rparr>)
               else (Inl err, s\<lparr>db := c, rdb := rd\<rparr>)
           | (Inr result, c) \<Rightarrow>
               (Inr (Some result), s\<lparr>db := c, rdb := cache_populate e rd key result now\<rparr>)))"

text \<open>
  \<open>New\<close>. A failure returns the error together with the logger as the attempt leaves it.
  \<open>mongo_Connect e mongoURI dbName\<close> is the \<open>meals\<close> collection of the database \<open>dbName\<close>
  as the client for \<open>mongoURI\<close> reaches it.
\<close>

definition New :: "env \<Rightarrow> string \<Rightarrow> string \<Rightarrow> string \<Rightarrow> logger \<Rightarrow> (error \<times> logger) + Store" where
  "New e mongoURI dbName redisAddr sugar =
     (case mongo_Connect e mongoURI dbName of
        Inl err \<Rightarrow>
          Inl (err, case sugar of None \<Rightarrow> None
                    | Some l \<Rightarrow> Some (Errorw l ''mongo connect failed'' [(''error'', FError err)]))
      | Inr client \<Rightarrow>
          (case Ping client of
             (Some err, c) \<Rightarrow>
               Inl (err, case sugar of None \<Rightarrow> None
                         | Some l \<Rightarrow> Some (Errorw l ''mongo ping failed'' [(''error'', FError err)]))
           | (None, c) \<Rightarrow>
               (let (rd, sugar') =
                      (if redisAddr \<noteq> '''' then
                         (case redis_Ping (redis_NewClient e redisAddr) of
                            (Some err, r) \<Rightarrow>
                              (None, case sugar of None \<Rightarrow> None
                                     | Some l \<Rightarrow>
                                         Some (Warnw l ''redis ping failed; continuing without redis caching''
                                                [(''error'', FError err)]))
                          | (None, r) \<Rightarrow> (Some r, sugar))
                       else (None, sugar))
                in Inr \<lparr>db = snd (CreateOne c), rdb = rd, log = sugar'\<rparr>)))"

text \<open>The document stored for a key: the first one of the collection with that \<open>idMeal\<close>.\<close>

definition stored :: "Store \<Rightarrow> string \<Rightarrow> M option" where
  "stored s mid = List.find (has_id mid) (docs (db s))"

text \<open>
  The ingredients in the words of the specification: the slots 1 to 20, those with a
  name that is not empty, each as a pair of name and measure. The text of a slot is
  read off the record itself: the string the slot holds, nothing when the slot is
  missing or null, and the printed form of any other value.
\<close>

definition slot_text :: "env \<Rightarrow> M \<Rightarrow> string \<Rightarrow> string" where
  "slot_text e m k =
     (case m k of
        None \<Rightarrow> ''''
      | Some VNil \<Rightarrow> ''''
      | Some (VString s) \<Rightarrow> s
      | Some v \<Rightarrow> Sprint e v)"

definition slot_name :: "env \<Rightarrow> M \<Rightarrow> nat \<Rightarrow> string" where
  "slot_name e m i = slot_text e m (''strIngredient'' @ itoa i)"

definition slot_measure :: "env \<Rightarrow> M \<Rightarrow> nat \<Rightarrow> string" where
  "slot_measure e m i = slot_text e m (''strMeasure'' @ itoa i)"

definition ingredients_spec :: "env \<Rightarrow> M \<Rightarrow> val list" where
  "ingredients_spec e m =
     map (\<lambda>i. VMap [''name'' \<mapsto> VString (slot_name e m i),
                    ''measure'' \<mapsto> VString (slot_measure e m i)])
         (filter (\<lambda>i. slot_name e m i \<noteq> '''') [1..<21])"

section \<open>Notions used in the proofs about repeated imports\<close>

text \<open>
  \<open>stamps clock raw\<close> is the list of the records of \<open>raw\<close> that a pass upserts, each with
  the reading of the clock that goes into its document. \<open>upsert\<close> is one turn of the loop
  of \<open>ImportFromFile\<close> on the collection when the request goes through, \<open>present c k\<close>
  says that the collection holds a document for the key \<open>k\<close>, and \<open>covers K P Q\<close> relates
  two such lists: \<open>P\<close> is \<open>Q\<close> with some records left out, each of them with a key in
  \<open>K\<close>, whatever the readings are.
\<close>

fun stamps :: "clock \<Rightarrow> M list \<Rightarrow> (M \<times> nat) list" where
  "stamps clock [] = []"
| "stamps clock (m # raw) =
     (if idMeal_of m = '''' then stamps clock raw
      else (m, clock 0) # stamps (shift 1 clock) raw)"

definition upsert :: "env \<Rightarrow> M \<times> nat \<Rightarrow> mongo \<Rightarrow> mongo" where
  "upsert e p c =
     snd (UpdateOne c (idMeal_of (fst p)) (meal_doc e (fst p) (idMeal_of (fst p)) (snd p)))"

definition present :: "mongo \<Rightarrow> string \<Rightarrow> bool" where
  "present c k = (List.find (has_id k) (docs c) \<noteq> None)"

fun covers :: "string set \<Rightarrow> (M \<times> nat) list \<Rightarrow> (M \<times> nat) list \<Rightarrow> bool" where
  "covers K P [] = (P = [])"
| "covers K P (q # Q) =
     ((case P of [] \<Rightarrow> False | p # P' \<Rightarrow> fst p = fst q \<and> covers K P' Q) \<or>
      (idMeal_of (fst q) \<in> K \<and> covers K P Q))"

text \<open>
  A document, a collection and a store with the field \<open>updatedAt\<close> removed from every
  document; everything else, the order of the documents included, is as it was.
\<close>

definition without_updatedAt :: "M \<Rightarrow> M" where
  "without_updatedAt d = d(''updatedAt'' := None)"

definition docs_except_updatedAt :: "mongo \<Rightarrow> mongo" where
  "docs_except_updatedAt c = c\<lparr>docs := map without_updatedAt (docs c)\<rparr>"

definition except_updatedAt :: "Store \<Rightarrow> Store" where
  "except_updatedAt s = s\<lparr>db := docs_except_updatedAt (db s)\<rparr>"

section \<open>Example data\<close>

text \<open>
  Records, documents, services and an environment for the instances below. \<open>ex_doc\<close> is
  a stored document as the server returns it, with the object id it gave; \<open>ex_plain\<close> is
  one whose \<open>_id\<close> was given as a string. The example environment prints booleans and
  whole numbers as \<open>fmt.Sprint\<close> does, and writes an instant as \<open>ex_time_text\<close> does: the
  RFC 3339 text in UTC of a whole second of the first of January 1970, which is where the
  times of the examples lie.
\<close>

definition ex_meal :: M where
  "ex_meal = [''idMeal'' \<mapsto> VString ''52772'',
              ''strMeal'' \<mapsto> VString ''Teriyaki Chicken Casserole'',
              ''strIngredient1'' \<mapsto> VString ''soy sauce'',
              ''strMeasure1'' \<mapsto> VString ''3/4 cup'',
              ''strIngredient2'' \<mapsto> VString '''',
              ''strMeasure2'' \<mapsto> VString ''1 tbsp'',
              ''strIngredient3'' \<mapsto> VString ''chicken breasts'',
              ''strMeasure3'' \<mapsto> VNil,
              ''strIngredient4'' \<mapsto> VNil,
              ''strMeasure4'' \<mapsto> VString ''2 cups'',
              ''strIngredient5'' \<mapsto> VString ''eggs'',
              ''strMeasure5'' \<mapsto> VFloat64 2 0,
              ''strIngredient20'' \<mapsto> VString ''brown rice'',
              ''strMeasure20'' \<mapsto> VString ''3 cups'',
              ''strIngredient21'' \<mapsto> VString ''never read'',
              ''strMeasure21'' \<mapsto> VString ''1'']"

definition ex_meal2 :: M where
  "ex_meal2 = [''idMeal'' \<mapsto> VString ''52773'', ''strMeal'' \<mapsto> VString ''Honey Teriyaki Salmon'']"

definition ex_numeric :: M where
  "ex_numeric = [''idMeal'' \<mapsto> VFloat64 52774 0, ''strMeal'' \<mapsto> VString ''Numeric id'']"

definition ex_doc :: M where
  "ex_doc = [''_id'' \<mapsto> VObjectID 7, ''idMeal'' \<mapsto> VString ''52772'', ''note'' \<mapsto> VString ''keep'',
             ''updatedAt'' \<mapsto> VDateTime 1000]"

definition ex_plain :: M where
  "ex_plain = [''_id'' \<mapsto> VString ''meal-52775'', ''idMeal'' \<mapsto> VString ''52775'',
               ''strMeal'' \<mapsto> VString ''Katsu Chicken curry'']"

definition ex_mongo :: "M list \<Rightarrow> error option list \<Rightarrow> mongo" where
  "ex_mongo ds fs = \<lparr>docs = ds, next_id = 8, unique_idMeal = True, faults = fs\<rparr>"

definition ex_redis :: "error option list \<Rightarrow> redis" where
  "ex_redis fs = \<lparr>entries = Map.empty, rfaults = fs\<rparr>"

definition ex_store :: "M list \<Rightarrow> error option list \<Rightarrow> redis option \<Rightarrow> Store" where
  "ex_store ds fs rd = \<lparr>db = ex_mongo ds fs, rdb = rd, log = Some []\<rparr>"

definition pad2 :: "nat \<Rightarrow> string" where
  "pad2 n = (if n < 10 then ''0'' @ itoa n else itoa n)"

definition ex_time_text :: "nat \<Rightarrow> string" where
  "ex_time_text t =
     (let s = t div 1000000000 in
      ''1970-01-01T'' @ pad2 (s div 3600) @ '':'' @ pad2 (s mod 3600 div 60) @ '':'' @
      pad2 (s mod 60) @ ''Z'')"

definition ex_env :: "M list \<Rightarrow> error + mongo \<Rightarrow> redis \<Rightarrow> env" where
  "ex_env raw conn r =
     \<lparr>Sprint = (\<lambda>v. case v of
                        VBool b \<Rightarrow> if b then ''true'' else ''false''
                      | VFloat64 m x \<Rightarrow> if 0 \<le> m \<and> x = 0 then itoa (nat m) else ''?''
                      | _ \<Rightarrow> ''?''),
      RFC3339 = ex_time_text,
      Unmarshal_slice = (\<lambda>b. Inr raw),
      os_Open = (\<lambda>p. Inr 3),
      io_ReadAll = (\<lambda>f. Inr ''[]''),
      mongo_Connect = (\<lambda>uri dbn. conn),
      redis_NewClient = (\<lambda>addr. r)\<rparr>"

text \<open>A clock that starts at \<open>t\<close> and has moved on by a millisecond at each reading.\<close>

definition ex_clock :: "nat \<Rightarrow> clock" where
  "ex_clock t = (\<lambda>n. t + n * 1000000)"

text \<open>The map a call of \<open>GetMealByID\<close> returned, if it returned one.\<close>

definition returned :: "error + M option \<Rightarrow> M option" where
  "returned res = (case res of Inl err \<Rightarrow> None | Inr out \<Rightarrow> out)"

text \<open>A field of a document that may be absent.\<close>

definition field_of :: "M option \<Rightarrow> string \<Rightarrow> val option" where
  "field_of d f = (case d of None \<Rightarrow> None | Some m \<Rightarrow> m f)"

section \<open>Properties of the measure parser\<close>

lemma Contains_nonempty: "Contains s sub \<Longrightarrow> sub \<noteq> [] \<Longrightarrow> s \<noteq> []"
  by (cases s) auto

lemma ToLower_Nil_iff: "ToLower s = [] \<longleftrightarrow> s = []"
  by (simp add: ToLower_def)

lemma run_measure_re_no_digit:
  assumes "c \<notin> set ''0123456789''"
  shows "run measure_re (c # cs, caps) = []"
  using assms by (simp add: measure_re_def Plus_def class_step_def)

lemma FindStringSubmatch_no_digit:
  assumes "s \<noteq> []" and "hd s \<notin> set ''0123456789''"
  shows "FindStringSubmatch measure_re 2 s = []"
proof -
  from assms obtain c cs where s: "s = c # cs" and c: "c \<notin> set ''0123456789''"
    by (cases s) auto
  show ?thesis
    unfolding FindStringSubmatch_def s using run_measure_re_no_digit[OF c] by simp
qed

text \<open>
  C1. The comment above the expression gives \<open>"1/2 tsp"\<close> and \<open>"1.5cups"\<close> as inputs whose
  leading number is to be split off, and the expression has an alternative for a fraction
  and one for a decimal. Its first alternative, an integer with an optional fraction after
  white space, already matches the leading digits of both, and the rest of the expression
  accepts whatever follows, so the matcher never falls back to the other two: the quantity
  of \<open>"1/2 tsp"\<close> is \<open>"1"\<close> and its unit \<open>"/2 tsp"\<close>, the quantity of \<open>"1.5 cups"\<close> is \<open>"1"\<close>
  and its unit \<open>".5 cups"\<close>.
\<close>

theorem parseMeasure_fraction_decimal_split:
  "parseMeasure ''1/2 tsp'' = (Some ''1'', Some ''/2 tsp'') \<and>
   parseMeasure ''1.5 cups'' = (Some ''1'', Some ''.5 cups'') \<and>
   parseMeasure ''1 1/2 cups'' = (Some ''1 1/2'', Some ''cups'')"
  by code_simp

text \<open>
  C7. When the trimmed input contains \<open>(\<close>, or contains \<open>" or "\<close> after lower-casing, the
  result is the whole trimmed input as the quantity and no unit, whatever the input starts
  with.
\<close>

theorem parseMeasure_compound:
  assumes "Contains (TrimSpace m) ''('' \<or> Contains (ToLower (TrimSpace m)) '' or ''"
  shows "parseMeasure m = (Some (TrimSpace m), None)"
proof -
  have ne: "TrimSpace m \<noteq> []"
  proof
    assume e: "TrimSpace m = []"
    have "\<not> Contains [] ''(''" and "\<not> Contains (ToLower []) '' or ''"
      by (simp_all add: ToLower_def)
    with assms e show False by simp
  qed
  show ?thesis
    unfolding parseMeasure_def Let_def using ne assms by (simp only: if_False if_True)
qed

theorem parseMeasure_compound_witness:
  "Contains (ToLower (TrimSpace ''2 cups OR more '')) '' or '' \<and>
   parseMeasure ''2 cups OR more '' = (Some ''2 cups OR more'', None)"
proof -
  have t: "TrimSpace ''2 cups OR more '' = ''2 cups OR more''"
    by code_simp
  have h: "Contains (ToLower (TrimSpace ''2 cups OR more '')) '' or ''"
    by code_simp
  from parseMeasure_compound[of "''2 cups OR more ''"] h t show ?thesis
    by simp
qed

text \<open>
  C8. \<open>parseMeasure\<close> is defined on every string and has no error result. An input that is
  empty after trimming gives no quantity and no unit; every other input gives a quantity;
  and when the expression does not match, in particular when the trimmed input does not
  start with a digit, the quantity is the whole trimmed input and there is no unit.
\<close>

theorem parseMeasure_total:
  "(TrimSpace a = [] \<longrightarrow> parseMeasure a = (None, None)) \<and>
   (TrimSpace b \<noteq> [] \<longrightarrow> (\<exists>q. fst (parseMeasure b) = Some q)) \<and>
   (TrimSpace c \<noteq> [] \<longrightarrow> FindStringSubmatch measure_re 2 (TrimSpace c) = [] \<longrightarrow>
      parseMeasure c = (Some (TrimSpace c), None)) \<and>
   (TrimSpace d \<noteq> [] \<longrightarrow> hd (TrimSpace d) \<notin> set ''0123456789'' \<longrightarrow>
      parseMeasure d = (Some (TrimSpace d), None))"
proof (intro conjI impI)
  assume "TrimSpace a = []"
  then show "parseMeasure a = (None, None)"
    by (simp add: parseMeasure_def)
next
  assume "TrimSpace b \<noteq> []"
  then show "\<exists>q. fst (parseMeasure b) = Some q"
    by (simp add: parseMeasure_def Let_def)
next
  assume "TrimSpace c \<noteq> []" and "FindStringSubmatch measure_re 2 (TrimSpace c) = []"
  then show "parseMeasure c = (Some (TrimSpace c), None)"
    by (simp add: parseMeasure_def Let_def)
next
  assume "TrimSpace d \<noteq> []" and "hd (TrimSpace d) \<notin> set ''0123456789''"
  then show "parseMeasure d = (Some (TrimSpace d), None)"
    using FindStringSubmatch_no_digit[of "TrimSpace d"]
    by (simp add: parseMeasure_def Let_def)
qed

theorem parseMeasure_total_witness:
  "TrimSpace ''   '' = [] \<and> parseMeasure ''   '' = (None, None) \<and>
   TrimSpace ''2'' \<noteq> [] \<and> (\<exists>q. fst (parseMeasure ''2'') = Some q) \<and>
   TrimSpace '' to taste'' \<noteq> [] \<and>
   FindStringSubmatch measure_re 2 (TrimSpace '' to taste'') = [] \<and>
   hd (TrimSpace '' to taste'') \<notin> set ''0123456789'' \<and>
   parseMeasure '' to taste'' = (Some ''to taste'', None)"
proof -
  have a: "TrimSpace ''   '' = []" by code_simp
  have b: "TrimSpace ''2'' \<noteq> []" by code_simp
  have t: "TrimSpace '' to taste'' = ''to taste''" by code_simp
  have f: "FindStringSubmatch measure_re 2 ''to taste'' = []" by code_simp
  from parseMeasure_total[of "''   ''" "''2''" "'' to taste''" "'' to taste''"] a b t f
  show ?thesis by simp
qed

section \<open>Properties of the meal store\<close>

lemma toString_slot_text: "fst (toString e (index m k)) = slot_text e m k"
  by (simp add: toString_def index_def slot_text_def split: option.splits val.splits)

lemma ingredients_loop_from:
  "i \<le> 21 \<Longrightarrow>
   ingredients_loop e m i acc =
     acc @ map (\<lambda>i. VMap [''name'' \<mapsto> VString (slot_name e m i),
                          ''measure'' \<mapsto> VString (slot_measure e m i)])
               (filter (\<lambda>i. slot_name e m i \<noteq> '''') [i..<21])"
proof (induction e m i acc rule: ingredients_loop.induct)
  case (1 e m i acc)
  show ?case
  proof (cases "i \<le> 20")
    case False
    with "1.prems" have "i = 21" by simp
    then show ?thesis by (simp add: ingredients_loop.simps)
  next
    case True
    then have upt: "[i..<21] = i # [Suc i..<21]"
      by (simp add: upt_conv_Cons)
    from True have le: "i + 1 \<le> 21" by simp
    note IH = "1.IH"[OF True refl refl refl refl le]
    show ?thesis
      apply (subst ingredients_loop.simps)
      apply (simp only: True if_True Let_def IH upt)
      apply (simp add: slot_name_def slot_measure_def toString_slot_text)
      done
  qed
qed

text \<open>
  C9. The \<open>ingredients\<close> field of the document prepared for a record is the list of
  \<open>{name, measure}\<close> pairs of the slots 1 to 20 whose name slot is not empty, in increasing
  order of the slot. \<open>ingredients_spec\<close> says this with a filter over the slot numbers
  and reads the slots off the record without the code's \<open>toString\<close>; it looks at the name
  slot only, so a pair whose name is empty is left out whatever its measure is.
\<close>

theorem meal_doc_ingredients: "meal_doc e m mid now ''ingredients'' = Some (VSlice (ingredients_spec e m))"
  by (simp add: meal_doc_def ingredients_spec_def ingredients_loop_from)

lemma shift_0: "shift 0 clock = clock"
  by (simp add: shift_def)

lemma shift_shift: "shift a (shift b clock) = shift (b + a) clock"
  by (simp add: shift_def add.assoc)

lemma import_loop_append:
  "import_loop e clock (xs @ ys) s =
     (case import_loop e clock xs s of
        (Some err, s') \<Rightarrow> (Some err, s')
      | (None, s') \<Rightarrow> import_loop e (shift (reads xs) clock) ys s')"
proof (induction xs arbitrary: s clock)
  case Nil
  show ?case by (simp add: shift_0)
next
  case (Cons m xs)
  show ?case
    by (simp add: Let_def Cons.IH shift_shift split: prod.splits option.splits)
qed

lemma idMeal_of_empty:
  assumes "\<forall>x. x \<noteq> '''' \<longrightarrow> r ''idMeal'' \<noteq> Some (VString x)"
  shows "idMeal_of r = ''''"
  using assms by (auto simp: idMeal_of_def index_def split: option.splits val.splits)

lemma import_loop_skip:
  assumes "idMeal_of r = ''''"
  shows "import_loop e clock (pre @ r # post) s = import_loop e clock (pre @ post) s"
  using assms by (simp add: import_loop_append split: prod.splits option.splits)

text \<open>
  C10. A record whose \<open>idMeal\<close> is missing, nil, not a string (a number, say) or the empty
  string is skipped: importing a file that holds it between the records \<open>pre\<close> and \<open>post\<close>
  returns the same error, if any, and leaves the same store, log included, as running the
  loop over \<open>pre\<close> and \<open>post\<close> alone.
\<close>

theorem ImportFromFile_skips_missing_id:
  assumes "read_raw e path = Inr (pre @ r # post)"
    and "\<forall>x. x \<noteq> '''' \<longrightarrow> r ''idMeal'' \<noteq> Some (VString x)"
  shows "ImportFromFile e s path clock = import_loop e clock (pre @ post) s"
proof -
  have "idMeal_of r = ''''"
    using assms(2) by (rule idMeal_of_empty)
  then have "import_loop e clock (pre @ r # post) s = import_loop e clock (pre @ post) s"
    by (rule import_loop_skip)
  with assms(1) show ?thesis
    by (simp add: ImportFromFile_def)
qed

lemma UpdateOne_fault:
  assumes "faults c = Some err # fs"
  shows "UpdateOne c mid doc = (Some err, c\<lparr>faults := fs\<rparr>)"
  using assms by (simp add: UpdateOne_def update_one_def take_fault_def)

lemma import_loop_failure:
  assumes "import_loop e clock pre s = (None, s1)"
    and "idMeal_of r \<noteq> ''''"
    and "faults (db s1) = Some err # fs"
  shows "import_loop e clock (pre @ r # post) s =
           (Some err,
            s1\<lparr>db := (db s1)\<lparr>faults := fs\<rparr>,
               log := map_option (\<lambda>l. l @ [(ErrorLevel, ''failed to upsert meal'',
                                    [(''id'', FString (idMeal_of r)), (''error'', FError err)])])
                                 (log s1)\<rparr>)"
  using assms(1,2) UpdateOne_fault[OF assms(3)]
  by (simp add: import_loop_append Let_def Errorw_def split: option.splits)

text \<open>
  C3, as the code has it. When the records before \<open>r\<close> have been handled without an error
  and the upsert of \<open>r\<close> fails with \<open>err\<close>, the run stops there and returns \<open>err\<close> itself,
  unchanged and unwrapped. The key of \<open>r\<close> goes to the log, in an entry of level error
  with the fields \<open>id\<close> and \<open>error\<close>, when a logger is configured; it is not added to the
  error returned. The store is the one left by the earlier records (\<open>s1\<close>, less the fault
  consumed): nothing is rolled back, and the records after \<open>r\<close> are not touched.
\<close>

theorem ImportFromFile_first_failure:
  assumes "read_raw e path = Inr (pre @ r # post)"
    and "import_loop e clock pre s = (None, s1)"
    and "idMeal_of r \<noteq> ''''"
    and "faults (db s1) = Some err # fs"
  shows "ImportFromFile e s path clock =
           (Some err,
            s1\<lparr>db := (db s1)\<lparr>faults := fs\<rparr>,
               log := map_option (\<lambda>l. l @ [(ErrorLevel, ''failed to upsert meal'',
                                    [(''id'', FString (idMeal_of r)), (''error'', FError err)])])
                                 (log s1)\<rparr>)"
  using assms(1,2,3) UpdateOne_fault[OF assms(4)]
  by (simp add: ImportFromFile_def import_loop_append Let_def Errorw_def split: option.splits)

lemma map_add_absorb: "dom a \<subseteq> dom b \<Longrightarrow> (d ++ a) ++ b = d ++ b"
proof
  fix x
  assume sub: "dom a \<subseteq> dom b"
  show "((d ++ a) ++ b) x = (d ++ b) x"
  proof (cases "b x")
    case None
    with sub have "a x = None" by auto
    with None show ?thesis by (simp add: map_add_def)
  next
    case (Some v)
    then show ?thesis by (simp add: map_add_def)
  qed
qed

lemma has_id_add: "doc ''idMeal'' = Some (VString k) \<Longrightarrow> has_id k (d ++ doc)"
  by (simp add: has_id_def map_add_def)

lemma has_id_other:
  assumes "doc ''idMeal'' = Some (VString k)" and "k' \<noteq> k"
  shows "\<not> has_id k' (d ++ doc)"
  using assms by (simp add: has_id_def map_add_def)

lemma has_id_unique: "has_id k d \<Longrightarrow> has_id k' d \<Longrightarrow> k' = k"
  by (auto simp: has_id_def split: option.splits val.splits)

lemma set_first_again:
  assumes "doc1 ''idMeal'' = Some (VString k)" and "dom doc1 \<subseteq> dom doc2"
    and "set_first k doc1 ds = Some ds1"
  shows "set_first k doc2 ds1 = set_first k doc2 ds"
  using assms(3)
proof (induction ds arbitrary: ds1)
  case Nil
  then show ?case by simp
next
  case (Cons d ds)
  show ?case
  proof (cases "has_id k d")
    case True
    with Cons.prems have "ds1 = (d ++ doc1) # ds" by simp
    with True assms(1,2) show ?thesis
      by (simp add: has_id_add map_add_absorb)
  next
    case False
    with Cons.prems obtain ds' where ds': "set_first k doc1 ds = Some ds'" and "ds1 = d # ds'"
      by auto
    with False Cons.IH[OF ds'] show ?thesis by simp
  qed
qed

lemma set_first_new:
  assumes "set_first k doc1 ds = None" and "has_id k n"
  shows "set_first k doc2 (ds @ [n]) = Some (ds @ [n ++ doc2])"
  using assms(1)
proof (induction ds)
  case Nil
  with assms(2) show ?case by simp
next
  case (Cons d ds)
  then show ?case by (auto split: if_splits)
qed

lemma set_first_None_find: "set_first k doc ds = None \<longleftrightarrow> List.find (has_id k) ds = None"
  by (induction ds) auto

lemma update_one_again:
  assumes "faults c = []" and "doc1 ''idMeal'' = Some (VString k)" and "dom doc1 \<subseteq> dom doc2"
  shows "update_one (snd (update_one c k doc1)) k doc2 = update_one c k doc2"
proof (cases "set_first k doc1 (docs c)")
  case None
  have n: "has_id k ([''_id'' \<mapsto> VObjectID (next_id c), ''idMeal'' \<mapsto> VString k] ++ doc1)"
    using assms(2) by (rule has_id_add)
  have none2: "set_first k doc2 (docs c) = None"
    using None by (simp add: set_first_None_find)
  show ?thesis
    using assms(1,3) None none2 set_first_new[OF None n, of doc2]
    by (simp add: update_one_def take_fault_def map_add_absorb)
next
  case (Some ds1)
  from set_first_again[OF assms(2,3) Some] obtain ds2
    where a: "set_first k doc2 ds1 = set_first k doc2 (docs c)" by simp
  have "set_first k doc2 (docs c) \<noteq> None"
    using Some set_first_None_find[of k doc1 "docs c"] set_first_None_find[of k doc2 "docs c"]
    by simp
  then obtain ds3 where b: "set_first k doc2 (docs c) = Some ds3" by auto
  show ?thesis
    using assms(1) Some a b by (simp add: update_one_def take_fault_def)
qed

lemma find_set_first:
  assumes "doc ''idMeal'' = Some (VString k)"
  shows "set_first k doc ds = Some ds1 \<Longrightarrow>
         List.find (has_id k) ds1 = map_option (\<lambda>d. d ++ doc) (List.find (has_id k) ds)"
proof (induction ds arbitrary: ds1)
  case Nil
  then show ?case by simp
next
  case (Cons d ds)
  show ?case
  proof (cases "has_id k d")
    case True
    with Cons.prems have "ds1 = (d ++ doc) # ds" by simp
    with True has_id_add[of doc k d, OF assms] show ?thesis by simp
  next
    case False
    with Cons.prems obtain ds' where ds': "set_first k doc ds = Some ds'" and "ds1 = d # ds'"
      by auto
    with False Cons.IH[OF ds'] show ?thesis by simp
  qed
qed

lemma find_append_new:
  "List.find P ds = None \<Longrightarrow> P n \<Longrightarrow> List.find P (ds @ [n]) = Some n"
  by (induction ds) (auto split: if_splits)

lemma find_append_keep: "List.find P ds \<noteq> None \<Longrightarrow> List.find P (ds @ [n]) \<noteq> None"
  by (induction ds) auto

lemma stored_update_one:
  assumes "faults (db s) = []" and "doc ''idMeal'' = Some (VString k)"
  shows "stored (s\<lparr>db := snd (update_one (db s) k doc)\<rparr>) k =
           Some ((case stored s k of
                    Some d \<Rightarrow> d
                  | None \<Rightarrow> [''_id'' \<mapsto> VObjectID (next_id (db s)), ''idMeal'' \<mapsto> VString k])
                 ++ doc)"
proof (cases "set_first k doc (docs (db s))")
  case None
  then have f: "List.find (has_id k) (docs (db s)) = None"
    by (simp add: set_first_None_find)
  define n where "n = [''_id'' \<mapsto> VObjectID (next_id (db s)), ''idMeal'' \<mapsto> VString k] ++ doc"
  have n: "has_id k n"
    unfolding n_def using assms(2) by (rule has_id_add)
  have u: "update_one (db s) k doc =
             (None, (db s)\<lparr>docs := docs (db s) @ [n], next_id := Suc (next_id (db s)), faults := []\<rparr>)"
    using assms(1) None by (simp add: update_one_def take_fault_def n_def)
  have "stored (s\<lparr>db := snd (update_one (db s) k doc)\<rparr>) k = Some n"
    unfolding u using find_append_new[of "has_id k" "docs (db s)" n, OF f n] by (simp add: stored_def)
  moreover have "stored s k = None"
    using f by (simp add: stored_def)
  ultimately show ?thesis
    by (simp add: n_def)
next
  case (Some ds1)
  then have "List.find (has_id k) (docs (db s)) \<noteq> None"
    using set_first_None_find[of k doc "docs (db s)"] by simp
  then obtain d where d: "List.find (has_id k) (docs (db s)) = Some d" by auto
  have u: "update_one (db s) k doc = (None, (db s)\<lparr>docs := ds1, faults := []\<rparr>)"
    using assms(1) Some by (simp add: update_one_def take_fault_def)
  show ?thesis
    unfolding u using d find_set_first[OF assms(2) Some]
    by (simp add: stored_def)
qed

lemma meal_doc_idMeal: "meal_doc e m k t ''idMeal'' = Some (VString k)"
  by (simp add: meal_doc_def)

lemma update_one_faults_Nil: "faults c = [] \<Longrightarrow> fst (update_one c k doc) = None"
  by (simp add: update_one_def take_fault_def split: option.splits)

lemma faults_update_one_Nil: "faults c = [] \<Longrightarrow> faults (snd (update_one c k doc)) = []"
  by (simp add: update_one_def take_fault_def split: option.splits)

lemma bson_doc_idMeal: "doc ''idMeal'' = Some (VString k) \<Longrightarrow> bson_doc doc ''idMeal'' = Some (VString k)"
  by (simp add: bson_doc_def)

lemma dom_bson_doc: "dom (bson_doc doc) = dom doc"
  by (simp add: bson_doc_def)

lemma UpdateOne_faults_Nil: "faults c = [] \<Longrightarrow> fst (UpdateOne c k doc) = None"
  by (simp add: UpdateOne_def update_one_faults_Nil)

lemma faults_UpdateOne_Nil: "faults c = [] \<Longrightarrow> faults (snd (UpdateOne c k doc)) = []"
  by (simp add: UpdateOne_def faults_update_one_Nil)

lemma stored_UpdateOne:
  assumes "faults (db s) = []" and "doc ''idMeal'' = Some (VString k)"
  shows "stored (s\<lparr>db := snd (UpdateOne (db s) k doc)\<rparr>) k =
           Some ((case stored s k of
                    Some d \<Rightarrow> d
                  | None \<Rightarrow> [''_id'' \<mapsto> VObjectID (next_id (db s)), ''idMeal'' \<mapsto> VString k])
                 ++ bson_doc doc)"
proof -
  have "bson_doc doc ''idMeal'' = Some (VString k)"
    using assms(2) by (rule bson_doc_idMeal)
  with assms(1) show ?thesis
    unfolding UpdateOne_def by (rule stored_update_one)
qed

lemma import_single:
  assumes "read_raw e path = Inr [r]" and "faults (db s) = []" and "idMeal_of r \<noteq> ''''"
  shows "ImportFromFile e s path clock =
           (None, s\<lparr>db := snd (UpdateOne (db s) (idMeal_of r) (meal_doc e r (idMeal_of r) (clock 0)))\<rparr>)"
proof -
  have "fst (UpdateOne (db s) (idMeal_of r) (meal_doc e r (idMeal_of r) (clock 0))) = None"
    using assms(2) by (rule UpdateOne_faults_Nil)
  then obtain c where "UpdateOne (db s) (idMeal_of r) (meal_doc e r (idMeal_of r) (clock 0)) = (None, c)"
    by (cases "UpdateOne (db s) (idMeal_of r) (meal_doc e r (idMeal_of r) (clock 0))") auto
  with assms(1,3) show ?thesis
    by (simp add: ImportFromFile_def Let_def)
qed

lemma import_single_stored:
  assumes "read_raw e path = Inr [r]" and "faults (db s) = []" and "idMeal_of r \<noteq> ''''"
  shows "stored (snd (ImportFromFile e s path clock)) (idMeal_of r) =
           Some ((case stored s (idMeal_of r) of
                    Some d \<Rightarrow> d
                  | None \<Rightarrow> [''_id'' \<mapsto> VObjectID (next_id (db s)),
                             ''idMeal'' \<mapsto> VString (idMeal_of r)])
                 ++ bson_doc (meal_doc e r (idMeal_of r) (clock 0)))"
  unfolding import_single[OF assms] snd_conv
  using assms(2) meal_doc_idMeal by (rule stored_UpdateOne)

lemma import_single_faults:
  assumes "read_raw e path = Inr [r]" and "faults (db s) = []" and "idMeal_of r \<noteq> ''''"
  shows "faults (db (snd (ImportFromFile e s path clock))) = []"
  unfolding import_single[OF assms] snd_conv
  using faults_UpdateOne_Nil[OF assms(2)] by simp

lemma set_first_commute_Some:
  assumes D: "D ''idMeal'' = Some (VString k)" and D': "D' ''idMeal'' = Some (VString k')"
    and ne: "k \<noteq> k'"
  shows "set_first k D ds = Some ds1 \<Longrightarrow> set_first k' D' ds = Some ds2 \<Longrightarrow>
         \<exists>ds3. set_first k' D' ds1 = Some ds3 \<and> set_first k D ds2 = Some ds3"
proof (induction ds arbitrary: ds1 ds2)
  case Nil
  then show ?case by simp
next
  case (Cons d ds)
  show ?case
  proof (cases "has_id k d")
    case True
    then have nk': "\<not> has_id k' d"
      using has_id_unique[of k d k'] ne by auto
    from True Cons.prems(1) have ds1: "ds1 = (d ++ D) # ds" by simp
    from nk' Cons.prems(2) obtain ds2' where
      s2: "set_first k' D' ds = Some ds2'" and ds2: "ds2 = d # ds2'" by auto
    have "\<not> has_id k' (d ++ D)"
      using D ne by (intro has_id_other) auto
    with s2 True show ?thesis
      by (simp add: ds1 ds2)
  next
    case False
    with Cons.prems(1) obtain ds1' where
      s1: "set_first k D ds = Some ds1'" and ds1: "ds1 = d # ds1'" by auto
    show ?thesis
    proof (cases "has_id k' d")
      case True
      with Cons.prems(2) have ds2: "ds2 = (d ++ D') # ds" by simp
      have "\<not> has_id k (d ++ D')"
        using D' ne by (intro has_id_other) auto
      with s1 True False show ?thesis
        by (simp add: ds1 ds2)
    next
      case nk': False
      with Cons.prems(2) obtain ds2' where
        s2: "set_first k' D' ds = Some ds2'" and ds2: "ds2 = d # ds2'" by auto
      from Cons.IH[OF s1 s2] obtain ds3 where
        "set_first k' D' ds1' = Some ds3" "set_first k D ds2' = Some ds3" by blast
      with False nk' show ?thesis
        by (simp add: ds1 ds2)
    qed
  qed
qed

lemma set_first_commute_None:
  assumes D: "D ''idMeal'' = Some (VString k)" and ne: "k \<noteq> k'" and n: "\<not> has_id k n"
  shows "set_first k D ds = Some ds1 \<Longrightarrow> set_first k' D' ds = None \<Longrightarrow>
         set_first k' D' ds1 = None \<and> set_first k D (ds @ [n]) = Some (ds1 @ [n])"
proof (induction ds arbitrary: ds1)
  case Nil
  then show ?case by simp
next
  case (Cons d ds)
  from Cons.prems(2) have nk': "\<not> has_id k' d" and s2: "set_first k' D' ds = None"
    by (auto split: if_splits)
  show ?case
  proof (cases "has_id k d")
    case True
    with Cons.prems(1) have ds1: "ds1 = (d ++ D) # ds" by simp
    have "\<not> has_id k' (d ++ D)"
      using D ne by (intro has_id_other) auto
    with True s2 show ?thesis by (simp add: ds1)
  next
    case False
    with Cons.prems(1) obtain ds1' where
      s1: "set_first k D ds = Some ds1'" and ds1: "ds1 = d # ds1'" by auto
    from Cons.IH[OF s1 s2] False nk' show ?thesis by (simp add: ds1)
  qed
qed

lemma update_one_commute:
  assumes f: "faults c = []" and p: "present c k"
    and D: "D ''idMeal'' = Some (VString k)" and D': "D' ''idMeal'' = Some (VString k')"
    and ne: "k \<noteq> k'"
  shows "snd (update_one (snd (update_one c k' D')) k D) = snd (update_one (snd (update_one c k D)) k' D')"
proof -
  from p obtain ds1 where s1: "set_first k D (docs c) = Some ds1"
    using set_first_None_find[of k D "docs c"] by (auto simp: present_def)
  show ?thesis
  proof (cases "set_first k' D' (docs c)")
    case None
    let ?n = "[''_id'' \<mapsto> VObjectID (next_id c), ''idMeal'' \<mapsto> VString k'] ++ D'"
    have "\<not> has_id k ?n"
      using D' ne by (intro has_id_other) auto
    from set_first_commute_None[OF D ne this s1 None]
    have a: "set_first k' D' ds1 = None" and b: "set_first k D (docs c @ [?n]) = Some (ds1 @ [?n])"
      by blast+
    show ?thesis
      using f s1 None a b by (simp add: update_one_def take_fault_def)
  next
    case (Some ds2)
    from set_first_commute_Some[OF D D' ne s1 Some] obtain ds3 where
      "set_first k' D' ds1 = Some ds3" "set_first k D ds2 = Some ds3" by blast
    then show ?thesis
      using f s1 Some by (simp add: update_one_def take_fault_def)
  qed
qed

lemma faults_upsert: "faults c = [] \<Longrightarrow> faults (upsert e p c) = []"
  by (simp add: upsert_def faults_UpdateOne_Nil)

lemma present_set_first:
  assumes D: "D ''idMeal'' = Some (VString k')"
  shows "set_first k' D ds = Some ds1 \<Longrightarrow> List.find (has_id k) ds \<noteq> None \<Longrightarrow>
         List.find (has_id k) ds1 \<noteq> None"
proof (induction ds arbitrary: ds1)
  case Nil
  then show ?case by simp
next
  case (Cons d ds)
  show ?case
  proof (cases "has_id k' d")
    case True
    with Cons.prems(1) have ds1: "ds1 = (d ++ D) # ds" by simp
    show ?thesis
    proof (cases "has_id k d")
      case hk: True
      with True have "k' = k" by (rule has_id_unique[rotated])
      with D have "has_id k (d ++ D)" by (simp add: has_id_add)
      then show ?thesis by (simp add: ds1)
    next
      case False
      with Cons.prems(2) show ?thesis by (simp add: ds1)
    qed
  next
    case False
    with Cons.prems(1) obtain ds1' where
      s1: "set_first k' D ds = Some ds1'" and ds1: "ds1 = d # ds1'" by auto
    with Cons.IH[OF s1] Cons.prems(2) show ?thesis by (auto split: if_splits)
  qed
qed

lemma present_update_one:
  assumes "faults c = []" and "D ''idMeal'' = Some (VString k')" and "present c k"
  shows "present (snd (update_one c k' D)) k"
proof (cases "set_first k' D (docs c)")
  case None
  with assms(1,3) show ?thesis
    by (simp add: update_one_def take_fault_def present_def find_append_keep)
next
  case (Some ds1)
  from present_set_first[OF assms(2) Some] assms(3) have "List.find (has_id k) ds1 \<noteq> None"
    by (simp add: present_def)
  with assms(1) Some show ?thesis
    by (simp add: update_one_def take_fault_def present_def)
qed

lemma present_update_one_self:
  assumes "faults c = []" and "D ''idMeal'' = Some (VString k)"
  shows "present (snd (update_one c k D)) k"
proof -
  have "stored \<lparr>db = snd (update_one c k D), rdb = None, log = None\<rparr> k \<noteq> None"
    using stored_update_one[of "\<lparr>db = c, rdb = None, log = None\<rparr>" D k] assms by simp
  then show ?thesis by (simp add: present_def stored_def)
qed

lemma present_upsert: "faults c = [] \<Longrightarrow> present c k \<Longrightarrow> present (upsert e p c) k"
  by (simp add: upsert_def UpdateOne_def present_update_one meal_doc_idMeal bson_doc_idMeal)

lemma present_upsert_self: "faults c = [] \<Longrightarrow> present (upsert e p c) (idMeal_of (fst p))"
  by (simp add: upsert_def UpdateOne_def present_update_one_self meal_doc_idMeal bson_doc_idMeal)

lemma upsert_absorb:
  assumes "faults c = []" and "idMeal_of (fst p) = idMeal_of (fst q)"
  shows "upsert e q (upsert e p c) = upsert e q c"
proof -
  let ?k = "idMeal_of (fst q)"
  let ?P = "bson_doc (meal_doc e (fst p) ?k (snd p))"
  let ?Q = "bson_doc (meal_doc e (fst q) ?k (snd q))"
  have idp: "?P ''idMeal'' = Some (VString ?k)"
    using meal_doc_idMeal by (rule bson_doc_idMeal)
  have sub: "dom ?P \<subseteq> dom ?Q"
    by (simp add: dom_bson_doc meal_doc_def)
  have "update_one (snd (update_one c ?k ?P)) ?k ?Q = update_one c ?k ?Q"
    using assms(1) idp sub by (rule update_one_again)
  with assms(2) show ?thesis by (simp add: upsert_def UpdateOne_def)
qed

lemma upsert_commute:
  assumes "faults c = []" and "present c (idMeal_of (fst q))"
    and "idMeal_of (fst p) \<noteq> idMeal_of (fst q)"
  shows "upsert e q (upsert e p c) = upsert e p (upsert e q c)"
proof -
  let ?kp = "idMeal_of (fst p)"
  let ?kq = "idMeal_of (fst q)"
  let ?P = "bson_doc (meal_doc e (fst p) ?kp (snd p))"
  let ?Q = "bson_doc (meal_doc e (fst q) ?kq (snd q))"
  have idp: "?P ''idMeal'' = Some (VString ?kp)"
    using meal_doc_idMeal by (rule bson_doc_idMeal)
  have idq: "?Q ''idMeal'' = Some (VString ?kq)"
    using meal_doc_idMeal by (rule bson_doc_idMeal)
  have "snd (update_one (snd (update_one c ?kp ?P)) ?kq ?Q) =
        snd (update_one (snd (update_one c ?kq ?Q)) ?kp ?P)"
    using assms(1,2) idq idp assms(3)[symmetric] by (rule update_one_commute)
  then show ?thesis by (simp add: upsert_def UpdateOne_def)
qed

lemma faults_fold_upsert: "faults c = [] \<Longrightarrow> faults (fold (upsert e) P c) = []"
  by (induction P arbitrary: c) (simp_all add: faults_upsert)

lemma upsert_past:
  assumes "faults c = []" and "present c (idMeal_of (fst q))"
  shows "upsert e q (fold (upsert e) P c) =
         fold (upsert e) (filter (\<lambda>p. idMeal_of (fst p) \<noteq> idMeal_of (fst q)) P) (upsert e q c)"
  using assms
proof (induction P arbitrary: c)
  case Nil
  show ?case by simp
next
  case (Cons p P)
  have f: "faults (upsert e p c) = []"
    using Cons.prems(1) by (rule faults_upsert)
  have pr: "present (upsert e p c) (idMeal_of (fst q))"
    using Cons.prems by (rule present_upsert)
  note IH = Cons.IH[OF f pr]
  show ?case
  proof (cases "idMeal_of (fst p) = idMeal_of (fst q)")
    case True
    with IH upsert_absorb[OF Cons.prems(1) True, of e] show ?thesis by simp
  next
    case False
    with IH upsert_commute[OF Cons.prems False, of e] show ?thesis by simp
  qed
qed

lemma covers_filter:
  "covers K P Q \<Longrightarrow> covers (insert k K) (filter (\<lambda>p. idMeal_of (fst p) \<noteq> k) P) Q"
proof (induction Q arbitrary: P)
  case Nil
  then show ?case by simp
next
  case (Cons q Q)
  from Cons.prems consider
    (matched) p P' where "P = p # P'" "fst p = fst q" "covers K P' Q"
    | (skipped) "idMeal_of (fst q) \<in> K" "covers K P Q"
    by (auto split: list.splits)
  then show ?case
  proof cases
    case matched
    from Cons.IH[OF matched(3)] show ?thesis
      by (simp add: matched(1,2))
  next
    case skipped
    from Cons.IH[OF skipped(2)] skipped(1) show ?thesis
      by simp
  qed
qed

lemma covers_stamps: "covers K (stamps clock1 raw) (stamps clock2 raw)"
  by (induction raw arbitrary: clock1 clock2) simp_all

lemma fold_upsert_twice_gen:
  assumes "faults c = []" and "covers K P Q" and "\<forall>k\<in>K. present c k"
  shows "fold (upsert e) Q (fold (upsert e) P c) = fold (upsert e) Q c"
  using assms
proof (induction Q arbitrary: P c K)
  case Nil
  then show ?case by simp
next
  case (Cons q Q)
  let ?k = "idMeal_of (fst q)"
  let ?c2 = "upsert e q c"
  have f2: "faults ?c2 = []" using Cons.prems(1) by (rule faults_upsert)
  have self: "present ?c2 ?k" using Cons.prems(1) by (rule present_upsert_self)
  have pres: "\<forall>k\<in>insert ?k K. present ?c2 k"
    using Cons.prems(1,3) self by (auto intro: present_upsert)
  from Cons.prems(2) consider
    (matched) p P' where "P = p # P'" "fst p = fst q" "covers K P' Q"
    | (skipped) "?k \<in> K" "covers K P Q"
    by (auto split: list.splits)
  then show ?case
  proof cases
    case matched
    let ?c1 = "upsert e p c"
    have f1: "faults ?c1 = []" using Cons.prems(1) by (rule faults_upsert)
    have "present ?c1 (idMeal_of (fst p))" using Cons.prems(1) by (rule present_upsert_self)
    then have p1: "present ?c1 ?k" by (simp add: matched(2))
    have "upsert e q (fold (upsert e) P' ?c1) =
            fold (upsert e) (filter (\<lambda>p. idMeal_of (fst p) \<noteq> ?k) P') (upsert e q ?c1)"
      using f1 p1 by (rule upsert_past)
    also have "upsert e q ?c1 = ?c2"
      using Cons.prems(1) by (rule upsert_absorb) (simp add: matched(2))
    finally have move: "upsert e q (fold (upsert e) P' ?c1) =
            fold (upsert e) (filter (\<lambda>p. idMeal_of (fst p) \<noteq> ?k) P') ?c2" .
    have cov: "covers (insert ?k K) (filter (\<lambda>p. idMeal_of (fst p) \<noteq> ?k) P') Q"
      using matched(3) by (rule covers_filter)
    from Cons.IH[OF f2 cov pres] move show ?thesis
      by (simp add: matched(1))
  next
    case skipped
    have pk: "present c ?k" using Cons.prems(3) skipped(1) by blast
    have move: "upsert e q (fold (upsert e) P c) =
            fold (upsert e) (filter (\<lambda>p. idMeal_of (fst p) \<noteq> ?k) P) ?c2"
      using Cons.prems(1) pk by (rule upsert_past)
    have cov: "covers (insert ?k K) (filter (\<lambda>p. idMeal_of (fst p) \<noteq> ?k) P) Q"
      using skipped(2) by (rule covers_filter)
    from Cons.IH[OF f2 cov pres] move show ?thesis
      by simp
  qed
qed

lemma fold_upsert_twice:
  assumes "faults c = []"
  shows "fold (upsert e) (stamps clock2 raw) (fold (upsert e) (stamps clock1 raw) c) =
         fold (upsert e) (stamps clock2 raw) c"
  using assms covers_stamps[of "{}" clock1 raw clock2] by (rule fold_upsert_twice_gen) simp

lemma import_loop_fold:
  assumes "faults (db s) = []"
  shows "import_loop e clock raw s = (None, s\<lparr>db := fold (upsert e) (stamps clock raw) (db s)\<rparr>)"
  using assms
proof (induction raw arbitrary: s clock)
  case Nil
  show ?case by simp
next
  case (Cons m raw)
  show ?case
  proof (cases "idMeal_of m = ''''")
    case True
    with Cons show ?thesis by simp
  next
    case False
    let ?u = "UpdateOne (db s) (idMeal_of m) (meal_doc e m (idMeal_of m) (clock 0))"
    have "fst ?u = None" using Cons.prems by (rule UpdateOne_faults_Nil)
    then obtain c where u: "?u = (None, c)" by (cases ?u) auto
    have "faults c = []"
      using faults_UpdateOne_Nil[OF Cons.prems, of "idMeal_of m" "meal_doc e m (idMeal_of m) (clock 0)"] u
      by simp
    then have "faults (db (s\<lparr>db := c\<rparr>)) = []" by simp
    from Cons.IH[OF this] False u show ?thesis
      by (simp add: upsert_def Let_def)
  qed
qed

lemma without_updatedAt_add:
  "without_updatedAt (d ++ a) = without_updatedAt d ++ without_updatedAt a"
  by (rule ext) (simp add: without_updatedAt_def map_add_def split: option.splits)

lemma has_id_without_updatedAt: "has_id k (without_updatedAt d) = has_id k d"
  by (simp add: has_id_def without_updatedAt_def)

lemma without_updatedAt_meal_doc:
  "without_updatedAt (bson_doc (meal_doc e m k t)) = without_updatedAt (bson_doc (meal_doc e m k t'))"
  by (rule ext) (simp add: without_updatedAt_def bson_doc_def meal_doc_def)

lemma set_first_except_updatedAt:
  assumes "map without_updatedAt ds = map without_updatedAt ds'"
    and "without_updatedAt a = without_updatedAt a'"
  shows "map_option (map without_updatedAt) (set_first k a ds) =
         map_option (map without_updatedAt) (set_first k a' ds')"
  using assms(1)
proof (induction ds arbitrary: ds')
  case Nil
  then show ?case by simp
next
  case (Cons d ds)
  then obtain d' ds'' where ds': "ds' = d' # ds''"
    and d: "without_updatedAt d = without_updatedAt d'"
    and rest: "map without_updatedAt ds = map without_updatedAt ds''"
    by (cases ds') auto
  have "has_id k (without_updatedAt d) = has_id k (without_updatedAt d')"
    by (simp only: d)
  then have h: "has_id k d = has_id k d'"
    by (simp only: has_id_without_updatedAt)
  show ?case
  proof (cases "has_id k d'")
    case True
    with h show ?thesis
      by (simp add: ds' without_updatedAt_add d rest assms(2))
  next
    case False
    with h Cons.IH[OF rest] show ?thesis
      by (cases "set_first k a ds"; cases "set_first k a' ds''") (simp_all add: ds' d)
  qed
qed

lemma update_one_except_updatedAt:
  assumes "docs_except_updatedAt c = docs_except_updatedAt c'"
    and "without_updatedAt a = without_updatedAt a'"
  shows "docs_except_updatedAt (snd (update_one c k a)) =
         docs_except_updatedAt (snd (update_one c' k a'))"
proof -
  from assms(1) have ds: "map without_updatedAt (docs c) = map without_updatedAt (docs c')"
    and rest: "next_id c = next_id c'" "unique_idMeal c = unique_idMeal c'" "faults c = faults c'"
    "mongo.more c = mongo.more c'"
    by (cases c; cases c'; simp add: docs_except_updatedAt_def)+
  note sf = set_first_except_updatedAt[OF ds assms(2), of k]
  obtain f fs where tf: "take_fault (faults c') = (f, fs)"
    by (cases "take_fault (faults c')")
  show ?thesis
  proof (cases f)
    case (Some err)
    with tf rest ds show ?thesis
      by (cases c; cases c') (simp add: update_one_def docs_except_updatedAt_def)
  next
    case None
    show ?thesis
    proof (cases "set_first k a (docs c)")
      case n1: None
      with sf have n2: "set_first k a' (docs c') = None"
        by (cases "set_first k a' (docs c')") simp_all
      from tf None rest ds n1 n2 assms(2) show ?thesis
        by (cases c; cases c')
           (simp add: update_one_def docs_except_updatedAt_def without_updatedAt_add)
    next
      case s1: (Some ds1)
      with sf obtain ds2 where s2: "set_first k a' (docs c') = Some ds2"
        and eq: "map without_updatedAt ds1 = map without_updatedAt ds2"
        by (cases "set_first k a' (docs c')") simp_all
      from tf None rest s1 s2 eq show ?thesis
        by (cases c; cases c') (simp add: update_one_def docs_except_updatedAt_def)
    qed
  qed
qed

lemma upsert_except_updatedAt:
  assumes "docs_except_updatedAt c = docs_except_updatedAt c'" and "fst p = fst p'"
  shows "docs_except_updatedAt (upsert e p c) = docs_except_updatedAt (upsert e p' c')"
  unfolding upsert_def UpdateOne_def assms(2)
  using assms(1) without_updatedAt_meal_doc by (rule update_one_except_updatedAt)

lemma fold_upsert_except_updatedAt:
  assumes "docs_except_updatedAt c = docs_except_updatedAt c'"
  shows "docs_except_updatedAt (fold (upsert e) (stamps clock1 raw) c) =
         docs_except_updatedAt (fold (upsert e) (stamps clock2 raw) c')"
  using assms
proof (induction raw arbitrary: c c' clock1 clock2)
  case Nil
  then show ?case by simp
next
  case (Cons m raw)
  show ?case
  proof (cases "idMeal_of m = ''''")
    case True
    with Cons show ?thesis by simp
  next
    case False
    have "docs_except_updatedAt (upsert e (m, clock1 0) c) =
          docs_except_updatedAt (upsert e (m, clock2 0) c')"
      using Cons.prems by (rule upsert_except_updatedAt) simp
    from Cons.IH[OF this] False show ?thesis
      by simp
  qed
qed

lemma import_file_fold:
  assumes "read_raw e path = Inr raw" and "faults (db s) = []"
  shows "ImportFromFile e s path clock =
           (None, s\<lparr>db := fold (upsert e) (stamps clock raw) (db s)\<rparr>)"
  using assms by (simp add: ImportFromFile_def import_loop_fold)

text \<open>
  C2, as the code has it. For any file and a primary store that does not fail, a second
  import of the file succeeds and leaves the store that the first import left in
  everything but the field \<open>updatedAt\<close> of the documents: the same documents in the same
  order, each with the same fields and values apart from \<open>updatedAt\<close>, and nothing else
  of the store changed. The field \<open>updatedAt\<close> is written again at each upsert, with the
  reading of the clock taken for the record, so the two runs together leave exactly the
  store that the second run alone would have left. The upsert is a \<open>$set\<close>: for a file
  of one record, the stored document after a run is the document stored before (or, when
  there was none, a new one with an \<open>_id\<close> and the \<open>idMeal\<close>) with the ten fields of the
  prepared document written over it in their stored form, and every other field it had
  is kept. The clocks of the two runs are arbitrary. The comment above \<open>ImportFromFile\<close>
  calls it idempotent; that is so for everything but \<open>updatedAt\<close>.
\<close>

theorem ImportFromFile_twice:
  assumes "read_raw e path = Inr raw" and "faults (db s) = []"
  shows "fst (ImportFromFile e (snd (ImportFromFile e s path clock1)) path clock2) = None \<and>
         except_updatedAt (snd (ImportFromFile e (snd (ImportFromFile e s path clock1)) path clock2)) =
           except_updatedAt (snd (ImportFromFile e s path clock1)) \<and>
         ImportFromFile e (snd (ImportFromFile e s path clock1)) path clock2 =
           ImportFromFile e s path clock2 \<and>
         (raw = [r] \<longrightarrow> idMeal_of r \<noteq> '''' \<longrightarrow>
            stored (snd (ImportFromFile e s path clock1)) (idMeal_of r) =
              Some ((case stored s (idMeal_of r) of
                       Some d \<Rightarrow> d
                     | None \<Rightarrow> [''_id'' \<mapsto> VObjectID (next_id (db s)),
                                ''idMeal'' \<mapsto> VString (idMeal_of r)])
                    ++ bson_doc (meal_doc e r (idMeal_of r) (clock1 0))))"
proof -
  let ?c1 = "fold (upsert e) (stamps clock1 raw) (db s)"
  let ?c2 = "fold (upsert e) (stamps clock2 raw) (db s)"
  have r1: "ImportFromFile e s path clock1 = (None, s\<lparr>db := ?c1\<rparr>)"
    using assms by (rule import_file_fold)
  have r2: "ImportFromFile e s path clock2 = (None, s\<lparr>db := ?c2\<rparr>)"
    using assms by (rule import_file_fold)
  have f: "faults (db (s\<lparr>db := ?c1\<rparr>)) = []"
    using assms(2) by (simp add: faults_fold_upsert)
  have "ImportFromFile e (s\<lparr>db := ?c1\<rparr>) path clock2 =
          (None, s\<lparr>db := ?c1\<rparr>\<lparr>db := fold (upsert e) (stamps clock2 raw) (db (s\<lparr>db := ?c1\<rparr>))\<rparr>)"
    using assms(1) f by (rule import_file_fold)
  also have "\<dots> = (None, s\<lparr>db := fold (upsert e) (stamps clock2 raw) ?c1\<rparr>)"
    by simp
  also have "\<dots> = (None, s\<lparr>db := ?c2\<rparr>)"
    using fold_upsert_twice[OF assms(2), of e clock2 raw clock1] by simp
  finally have twice: "ImportFromFile e (snd (ImportFromFile e s path clock1)) path clock2 =
                         ImportFromFile e s path clock2"
    by (simp add: r1 r2)
  have "docs_except_updatedAt ?c2 = docs_except_updatedAt ?c1"
    by (rule fold_upsert_except_updatedAt) simp
  then have same: "except_updatedAt (snd (ImportFromFile e (snd (ImportFromFile e s path clock1)) path clock2)) =
                   except_updatedAt (snd (ImportFromFile e s path clock1))"
    unfolding twice unfolding r1 r2 by (simp add: except_updatedAt_def)
  have ok: "fst (ImportFromFile e (snd (ImportFromFile e s path clock1)) path clock2) = None"
    by (simp add: twice r2)
  have one: "stored (snd (ImportFromFile e s path clock1)) (idMeal_of r) =
              Some ((case stored s (idMeal_of r) of
                       Some d \<Rightarrow> d
                     | None \<Rightarrow> [''_id'' \<mapsto> VObjectID (next_id (db s)),
                                ''idMeal'' \<mapsto> VString (idMeal_of r)])
                    ++ bson_doc (meal_doc e r (idMeal_of r) (clock1 0)))"
    if "raw = [r]" and "idMeal_of r \<noteq> ''''"
    using assms that by (intro import_single_stored) simp_all
  from ok same twice one show ?thesis
    by blast
qed

lemma GetMealByID_no_hit:
  assumes "cache_lookup e s (''meal:'' @ k) now = (None, rd)"
  shows "GetMealByID e s k now =
           (case FindOne (db s) k of
              (Inl err, c) \<Rightarrow>
                if err = ErrNoDocuments then (Inr None, s\<lparr>db := c, rdb := rd\<rparr>)
                else (Inl err, s\<lparr>db := c, rdb := rd\<rparr>)
            | (Inr result, c) \<Rightarrow>
                (Inr (Some result),
                 s\<lparr>db := c, rdb := cache_populate e rd (''meal:'' @ k) result now\<rparr>))"
  unfolding GetMealByID_def Let_def by (simp only: assms prod.case option.case)

lemma GetMealByID_hit:
  assumes "cache_lookup e s (''meal:'' @ k) now = (Some out, rd)"
  shows "GetMealByID e s k now = (Inr out, s\<lparr>rdb := rd\<rparr>)"
  unfolding GetMealByID_def Let_def by (simp only: assms prod.case option.case)

lemma cache_populate_ok:
  assumes "rfaults r1 = []"
  shows "cache_populate e (Some r1) key d now =
           Some (r1\<lparr>entries := (entries r1)
                   (key \<mapsto> (JSONText (JObject (map_option (encode (RFC3339 e)) \<circ> d)),
                            now + 24 * Hour))\<rparr>)"
  using assms by (simp add: cache_populate_def Marshal_def redis_Set_def take_fault_def)

lemma cache_lookup_live:
  assumes "rdb s = Some r" and "rfaults r = []" and "entries r key = Some (bb, expiry)"
    and "now < expiry" and "Unmarshal bb = Inr out"
  shows "cache_lookup e s key now = (Some out, Some r)"
  using assms by (simp add: cache_lookup_def redis_Get_def take_fault_def)

lemma Unmarshal_Marshal:
  "Unmarshal (JSONText (JObject (map_option (encode (RFC3339 e)) \<circ> d))) = Inr (Some (json_copy e d))"
  by (simp add: Unmarshal_def json_copy_def)

lemma decode_encode: "json_native v \<Longrightarrow> decode (encode tf v) = v"
proof (induction rule: json_native.induct)
  case (5 xs)
  then show ?case by (simp add: map_idI)
next
  case (6 f)
  have "map_option decode (map_option (encode tf) (f k)) = f k" for k
    using 6 by (cases "f k") auto
  then show ?case by (auto simp: fun_eq_iff)
qed simp_all

lemma json_copy_native:
  assumes "json_native (VMap d)"
  shows "json_copy e d = d"
proof -
  have "decode (encode (RFC3339 e) (VMap d)) = VMap d"
    using assms by (rule decode_encode)
  then show ?thesis
    by (simp add: json_copy_def)
qed

lemma GetMealByID_first:
  assumes "cache_lookup e s (''meal:'' @ k) now = (None, Some r1)"
    and "FindOne (db s) k = (Inr d, c)"
  shows "GetMealByID e s k now =
           (Inr (Some d), s\<lparr>db := c, rdb := cache_populate e (Some r1) (''meal:'' @ k) d now\<rparr>)"
  using GetMealByID_no_hit[OF assms(1)] assms(2) by simp

lemma GetMealByID_second:
  assumes "rfaults r1 = []" and "now' < now + 24 * Hour"
    and "rdb s1 = Some (r1\<lparr>entries := (entries r1)
                 (''meal:'' @ k \<mapsto> (JSONText (JObject (map_option (encode (RFC3339 e)) \<circ> d)),
                                    now + 24 * Hour))\<rparr>)"
  shows "GetMealByID e s1 k now' = (Inr (Some (json_copy e d)), s1)"
proof -
  let ?r2 = "r1\<lparr>entries := (entries r1)
                 (''meal:'' @ k \<mapsto> (JSONText (JObject (map_option (encode (RFC3339 e)) \<circ> d)),
                                    now + 24 * Hour))\<rparr>"
  have "cache_lookup e s1 (''meal:'' @ k) now' = (Some (Some (json_copy e d)), Some ?r2)"
    using assms Unmarshal_Marshal[of e d] by (intro cache_lookup_live) simp_all
  from GetMealByID_hit[OF this] assms(3) show ?thesis by simp
qed

text \<open>
  C4, as the code has it. Let the cache be configured and the lookup of \<open>meal:k\<close> in it not
  produce a document (a miss, an expired entry, a failure or bytes that do not decode),
  and let the primary store hold \<open>d\<close> for \<open>k\<close> and answer. Then \<open>GetMealByID\<close> returns \<open>d\<close>,
  whatever becomes of the attempt to fill the cache. When the cache accepts the write, it
  afterwards holds the JSON text of \<open>d\<close> under \<open>meal:k\<close> with the expiry 24 hours after
  \<open>now\<close>, and a second call at a time \<open>now'\<close> before that expiry, whatever the primary
  store \<open>c'\<close> has become by then (emptied or unreachable, say), leaves the whole state as
  it was (the primary store is not asked, its fault schedule is not consumed, and the
  entry keeps its expiry) and returns \<open>json_copy e d\<close>, the map read back from that text.
  The copy is \<open>d\<close> itself when \<open>d\<close> holds only values JSON has a shape for; an object id or
  a time in \<open>d\<close> comes back as a string.
\<close>

theorem GetMealByID_cache_aside:
  assumes "cache_lookup e s (''meal:'' @ k) now = (None, Some r1)"
    and "FindOne (db s) k = (Inr d, c)"
  shows "fst (GetMealByID e s k now) = Inr (Some d) \<and>
         (rfaults r1 = [] \<longrightarrow>
            rdb (snd (GetMealByID e s k now)) =
              Some (r1\<lparr>entries := (entries r1)
                      (''meal:'' @ k \<mapsto> (JSONText (JObject (map_option (encode (RFC3339 e)) \<circ> d)),
                                         now + 24 * Hour))\<rparr>) \<and>
            (now' < now + 24 * Hour \<longrightarrow>
               GetMealByID e ((snd (GetMealByID e s k now))\<lparr>db := c'\<rparr>) k now' =
                 (Inr (Some (json_copy e d)), (snd (GetMealByID e s k now))\<lparr>db := c'\<rparr>))) \<and>
         (json_native (VMap d) \<longrightarrow> json_copy e d = d)"
proof -
  let ?key = "''meal:'' @ k"
  let ?bb = "JSONText (JObject (map_option (encode (RFC3339 e)) \<circ> d))"
  have g1: "GetMealByID e s k now =
              (Inr (Some d), s\<lparr>db := c, rdb := cache_populate e (Some r1) ?key d now\<rparr>)"
    using assms by (rule GetMealByID_first)
  have first: "fst (GetMealByID e s k now) = Inr (Some d)"
    by (simp add: g1)
  have rest: "rdb (snd (GetMealByID e s k now)) =
                Some (r1\<lparr>entries := (entries r1)(?key \<mapsto> (?bb, now + 24 * Hour))\<rparr>) \<and>
              (now' < now + 24 * Hour \<longrightarrow>
                 GetMealByID e ((snd (GetMealByID e s k now))\<lparr>db := c'\<rparr>) k now' =
                   (Inr (Some (json_copy e d)), (snd (GetMealByID e s k now))\<lparr>db := c'\<rparr>))"
    if f: "rfaults r1 = []"
  proof -
    let ?r2 = "r1\<lparr>entries := (entries r1)(?key \<mapsto> (?bb, now + 24 * Hour))\<rparr>"
    let ?s1 = "s\<lparr>db := c, rdb := Some ?r2\<rparr>"
    have g1': "GetMealByID e s k now = (Inr (Some d), ?s1)"
      by (simp only: g1 cache_populate_ok[OF f])
    have again: "GetMealByID e (?s1\<lparr>db := c'\<rparr>) k now' = (Inr (Some (json_copy e d)), ?s1\<lparr>db := c'\<rparr>)"
      if t: "now' < now + 24 * Hour"
      using f t by (rule GetMealByID_second) simp
    show ?thesis
      using again by (simp add: g1')
  qed
  have same: "json_copy e d = d" if "json_native (VMap d)"
    using that by (rule json_copy_native)
  from first rest same show ?thesis by blast
qed

lemma cache_lookup_failure:
  assumes "rdb s = Some r"
    and "case fst (redis_Get r key now) of Inl err \<Rightarrow> True | Inr b \<Rightarrow> isl (Unmarshal b)"
  shows "fst (cache_lookup e s key now) = None"
  using assms
  by (cases "redis_Get r key now")
     (auto simp: cache_lookup_def isl_def split: sum.splits)

lemma FindOne_absent:
  assumes "fst (take_fault (faults (db s))) = None" and "stored s k = None"
  shows "fst (FindOne (db s) k) = Inl ErrNoDocuments"
  using assms
  by (cases "take_fault (faults (db s))") (simp add: FindOne_def stored_def)

lemma GetMealByID_fst_no_hit:
  assumes "fst (cache_lookup e s (''meal:'' @ k) now) = None"
  shows "fst (GetMealByID e s k now) =
           (case fst (FindOne (db s) k) of
              Inl err \<Rightarrow> if err = ErrNoDocuments then Inr None else Inl err
            | Inr d \<Rightarrow> Inr (Some d))"
proof -
  from assms obtain rd where "cache_lookup e s (''meal:'' @ k) now = (None, rd)"
    by (cases "cache_lookup e s (''meal:'' @ k) now") auto
  from GetMealByID_no_hit[OF this] show ?thesis
    by (cases "FindOne (db s) k") (auto split: sum.splits)
qed

lemma cache_lookup_disabled: "rdb s = None \<Longrightarrow> cache_lookup e s key now = (None, None)"
  by (simp add: cache_lookup_def)

lemma GetMealByID_error_source:
  assumes "fst (GetMealByID e s k now) = Inl err"
  shows "fst (FindOne (db s) k) = Inl err \<and> err \<noteq> ErrNoDocuments"
proof (cases "cache_lookup e s (''meal:'' @ k) now")
  case (Pair hit rd)
  show ?thesis
  proof (cases hit)
    case None
    with Pair have "fst (cache_lookup e s (''meal:'' @ k) now) = None" by simp
    from GetMealByID_fst_no_hit[OF this] assms show ?thesis
      by (auto split: sum.splits if_splits)
  next
    case (Some out)
    with Pair GetMealByID_hit[of e s k now out rd] assms show ?thesis by simp
  qed
qed

text \<open>
  C5. Three facts about \<open>GetMealByID\<close>. When the cache yields nothing, the primary store
  answers and holds no document for the key, the result is the nil map and no error. An
  error that is returned is the error of the primary store's \<open>FindOne\<close>, and it is never
  \<open>ErrNoDocuments\<close>. When the read of the cache fails, or the bytes read do not decode,
  the value returned is the one a store without a cache returns.
\<close>

theorem GetMealByID_not_found_and_errors:
  "(fst (cache_lookup e s (''meal:'' @ k) now) = None \<longrightarrow>
      fst (take_fault (faults (db s))) = None \<longrightarrow> stored s k = None \<longrightarrow>
      fst (GetMealByID e s k now) = Inr None) \<and>
   (fst (GetMealByID e1 s1 k1 now1) = Inl err \<longrightarrow>
      fst (FindOne (db s1) k1) = Inl err \<and> err \<noteq> ErrNoDocuments) \<and>
   (rdb s2 = Some r \<longrightarrow>
      (case fst (redis_Get r (''meal:'' @ k2) now2) of
         Inl err \<Rightarrow> True | Inr b \<Rightarrow> isl (Unmarshal b)) \<longrightarrow>
      fst (GetMealByID e2 s2 k2 now2) = fst (GetMealByID e2 (s2\<lparr>rdb := None\<rparr>) k2 now2))"
proof (intro conjI impI)
  assume "fst (cache_lookup e s (''meal:'' @ k) now) = None"
    and "fst (take_fault (faults (db s))) = None" and "stored s k = None"
  then show "fst (GetMealByID e s k now) = Inr None"
    using GetMealByID_fst_no_hit[of e s k now] FindOne_absent[of s k] by simp
next
  assume "fst (GetMealByID e1 s1 k1 now1) = Inl err"
  then show "fst (FindOne (db s1) k1) = Inl err" and "err \<noteq> ErrNoDocuments"
    using GetMealByID_error_source[of e1 s1 k1 now1 err] by simp_all
next
  assume a: "rdb s2 = Some r"
    and b: "case fst (redis_Get r (''meal:'' @ k2) now2) of
              Inl err \<Rightarrow> True | Inr b \<Rightarrow> isl (Unmarshal b)"
  have "fst (cache_lookup e2 s2 (''meal:'' @ k2) now2) = None"
    using a b by (rule cache_lookup_failure)
  moreover have "fst (cache_lookup e2 (s2\<lparr>rdb := None\<rparr>) (''meal:'' @ k2) now2) = None"
    by (simp add: cache_lookup_disabled)
  ultimately show "fst (GetMealByID e2 s2 k2 now2) = fst (GetMealByID e2 (s2\<lparr>rdb := None\<rparr>) k2 now2)"
    by (simp add: GetMealByID_fst_no_hit)
qed

lemma GetMealByID_disabled:
  assumes "rdb st = None"
  shows "rdb (snd (GetMealByID e st k now)) = None \<and>
         fst (GetMealByID e st k now) =
           (case fst (FindOne (db st) k) of
              Inl er \<Rightarrow> if er = ErrNoDocuments then Inr None else Inl er
            | Inr d \<Rightarrow> Inr (Some d))"
proof -
  have l: "cache_lookup e st (''meal:'' @ k) now = (None, None)"
    using assms by (rule cache_lookup_disabled)
  have "rdb (snd (GetMealByID e st k now)) = None"
    unfolding GetMealByID_no_hit[OF l]
    by (cases "FindOne (db st) k") (auto simp: cache_populate_def split: sum.splits)
  moreover have "fst (GetMealByID e st k now) =
           (case fst (FindOne (db st) k) of
              Inl er \<Rightarrow> if er = ErrNoDocuments then Inr None else Inl er
            | Inr d \<Rightarrow> Inr (Some d))"
    using l by (intro GetMealByID_fst_no_hit) simp
  ultimately show ?thesis by simp
qed

lemma docs_Ping: "docs (snd (Ping c)) = docs c"
  by (simp add: Ping_def split: prod.splits)

lemma docs_CreateOne: "docs (snd (CreateOne c)) = docs c"
  by (simp add: CreateOne_def split: prod.splits option.splits)

text \<open>
  C6. \<open>New\<close> returns the error when the connection to the primary store cannot be set up
  and when its ping fails. When the primary store answers, a cache address is given and
  the ping of the cache fails, \<open>New\<close> returns a store: its cache is disabled, the logger, if
  there is one, has received the warning, the collection is the one connected to, and
  every \<open>GetMealByID\<close> on that store leaves the cache disabled and returns what the primary
  store gives (the document, the nil map when there is none, or the primary store's
  error).
\<close>

theorem New_degraded_mode:
  "(mongo_Connect e uri dbn = Inl err \<longrightarrow>
      New e uri dbn addr sugar =
        Inl (err, map_option (\<lambda>l. Errorw l ''mongo connect failed'' [(''error'', FError err)]) sugar)) \<and>
   (mongo_Connect e1 uri1 dbn1 = Inr client1 \<longrightarrow> fst (Ping client1) = Some err1 \<longrightarrow>
      New e1 uri1 dbn1 addr1 sugar1 =
        Inl (err1, map_option (\<lambda>l. Errorw l ''mongo ping failed'' [(''error'', FError err1)]) sugar1)) \<and>
   (mongo_Connect e2 uri2 dbn2 = Inr client2 \<longrightarrow> fst (Ping client2) = None \<longrightarrow>
    addr2 \<noteq> '''' \<longrightarrow> fst (redis_Ping (redis_NewClient e2 addr2)) = Some err2 \<longrightarrow>
      (\<exists>st. New e2 uri2 dbn2 addr2 sugar2 = Inr st \<and>
            rdb st = None \<and>
            log st = map_option (\<lambda>l. Warnw l ''redis ping failed; continuing without redis caching''
                                         [(''error'', FError err2)]) sugar2 \<and>
            docs (db st) = docs client2 \<and>
            (\<forall>k now. rdb (snd (GetMealByID e2 st k now)) = None \<and>
                      fst (GetMealByID e2 st k now) =
                        (case fst (FindOne (db st) k) of
                           Inl er \<Rightarrow> if er = ErrNoDocuments then Inr None else Inl er
                         | Inr d \<Rightarrow> Inr (Some d)))))"
proof (intro conjI impI)
  assume "mongo_Connect e uri dbn = Inl err"
  then show "New e uri dbn addr sugar =
        Inl (err, map_option (\<lambda>l. Errorw l ''mongo connect failed'' [(''error'', FError err)]) sugar)"
    by (simp add: New_def split: option.splits)
next
  assume "mongo_Connect e1 uri1 dbn1 = Inr client1" and "fst (Ping client1) = Some err1"
  then show "New e1 uri1 dbn1 addr1 sugar1 =
        Inl (err1, map_option (\<lambda>l. Errorw l ''mongo ping failed'' [(''error'', FError err1)]) sugar1)"
    by (cases "Ping client1") (simp add: New_def split: option.splits)
next
  assume c: "mongo_Connect e2 uri2 dbn2 = Inr client2" and p: "fst (Ping client2) = None"
    and a: "addr2 \<noteq> ''''" and r: "fst (redis_Ping (redis_NewClient e2 addr2)) = Some err2"
  define st where "st = \<lparr>db = snd (CreateOne (snd (Ping client2))), rdb = None,
      log = map_option (\<lambda>l. Warnw l ''redis ping failed; continuing without redis caching''
                               [(''error'', FError err2)]) sugar2\<rparr>"
  have new: "New e2 uri2 dbn2 addr2 sugar2 = Inr st"
    using c p a r
    by (cases "Ping client2"; cases "redis_Ping (redis_NewClient e2 addr2)")
       (simp add: New_def st_def split: option.splits)
  have d: "docs (db st) = docs client2"
    by (simp add: st_def docs_CreateOne docs_Ping)
  have n: "rdb st = None"
    by (simp add: st_def)
  have l: "log st = map_option (\<lambda>l. Warnw l ''redis ping failed; continuing without redis caching''
                                         [(''error'', FError err2)]) sugar2"
    by (simp add: st_def)
  from new n l d GetMealByID_disabled[OF n, of e2]
  show "\<exists>st. New e2 uri2 dbn2 addr2 sugar2 = Inr st \<and>
            rdb st = None \<and>
            log st = map_option (\<lambda>l. Warnw l ''redis ping failed; continuing without redis caching''
                                         [(''error'', FError err2)]) sugar2 \<and>
            docs (db st) = docs client2 \<and>
            (\<forall>k now. rdb (snd (GetMealByID e2 st k now)) = None \<and>
                      fst (GetMealByID e2 st k now) =
                        (case fst (FindOne (db st) k) of
                           Inl er \<Rightarrow> if er = ErrNoDocuments then Inr None else Inl er
                         | Inr d \<Rightarrow> Inr (Some d)))"
    by blast
qed

section \<open>Instances\<close>

lemma read_raw_ex: "read_raw (ex_env raw conn r) path = Inr raw"
  by (simp add: read_raw_def ex_env_def)

lemma idMeal_of_ex_meal: "idMeal_of ex_meal = ''52772''"
  by (simp add: idMeal_of_def index_def ex_meal_def)

lemma idMeal_of_ex_meal2: "idMeal_of ex_meal2 = ''52773''"
  by (simp add: idMeal_of_def index_def ex_meal2_def)

text \<open>
  An instance of C9: a record whose slots 1, 3, 5 and 20 have a name. Slot 2 has a measure
  and an empty name, slot 4 has a measure and a nil name, and both are left out; the
  measure of slot 3 is nil and reads as the empty string; the measure of slot 5 is the
  number 2 and is printed; slot 21 is not read.
\<close>

lemma named_slots_ex_meal:
  "filter (\<lambda>i. slot_name (ex_env [ex_meal] (Inl RedisNil) (ex_redis [])) ex_meal i \<noteq> '''') [1..<21]
     = [1, 3, 5, 20]"
  by code_simp

lemma slot_texts_ex_meal:
  "slot_name (ex_env [ex_meal] (Inl RedisNil) (ex_redis [])) ex_meal 1 = ''soy sauce''"
  "slot_measure (ex_env [ex_meal] (Inl RedisNil) (ex_redis [])) ex_meal 1 = ''3/4 cup''"
  "slot_name (ex_env [ex_meal] (Inl RedisNil) (ex_redis [])) ex_meal 3 = ''chicken breasts''"
  "slot_measure (ex_env [ex_meal] (Inl RedisNil) (ex_redis [])) ex_meal 3 = ''''"
  "slot_name (ex_env [ex_meal] (Inl RedisNil) (ex_redis [])) ex_meal 5 = ''eggs''"
  "slot_measure (ex_env [ex_meal] (Inl RedisNil) (ex_redis [])) ex_meal 5 = ''2''"
  "slot_name (ex_env [ex_meal] (Inl RedisNil) (ex_redis [])) ex_meal 20 = ''brown rice''"
  "slot_measure (ex_env [ex_meal] (Inl RedisNil) (ex_redis [])) ex_meal 20 = ''3 cups''"
  by code_simp+

theorem meal_doc_ingredients_witness:
  "meal_doc (ex_env [ex_meal] (Inl RedisNil) (ex_redis [])) ex_meal ''52772'' 5 ''ingredients'' =
     Some (VSlice
       [VMap [''name'' \<mapsto> VString ''soy sauce'', ''measure'' \<mapsto> VString ''3/4 cup''],
        VMap [''name'' \<mapsto> VString ''chicken breasts'', ''measure'' \<mapsto> VString ''''],
        VMap [''name'' \<mapsto> VString ''eggs'', ''measure'' \<mapsto> VString ''2''],
        VMap [''name'' \<mapsto> VString ''brown rice'', ''measure'' \<mapsto> VString ''3 cups'']])"
  using meal_doc_ingredients[of "ex_env [ex_meal] (Inl RedisNil) (ex_redis [])" ex_meal "''52772''" 5]
  by (simp only: ingredients_spec_def named_slots_ex_meal slot_texts_ex_meal list.map)

text \<open>An instance: a record with a numeric \<open>idMeal\<close> between two well-formed records.\<close>

theorem ImportFromFile_skips_missing_id_witness:
  "read_raw (ex_env [ex_meal2, ex_numeric, ex_meal] (Inl RedisNil) (ex_redis [])) ''all_meals.json''
     = Inr ([ex_meal2] @ ex_numeric # [ex_meal]) \<and>
   ex_numeric ''idMeal'' = Some (VFloat64 52774 0) \<and>
   ImportFromFile (ex_env [ex_meal2, ex_numeric, ex_meal] (Inl RedisNil) (ex_redis []))
       (ex_store [] [] None) ''all_meals.json'' (ex_clock 5) =
     import_loop (ex_env [ex_meal2, ex_numeric, ex_meal] (Inl RedisNil) (ex_redis [])) (ex_clock 5)
       ([ex_meal2] @ [ex_meal]) (ex_store [] [] None)"
proof -
  have h1: "read_raw (ex_env [ex_meal2, ex_numeric, ex_meal] (Inl RedisNil) (ex_redis []))
              ''all_meals.json'' = Inr ([ex_meal2] @ ex_numeric # [ex_meal])"
    by (simp add: read_raw_ex)
  have h2: "\<forall>x. x \<noteq> '''' \<longrightarrow> ex_numeric ''idMeal'' \<noteq> Some (VString x)"
    by (simp add: ex_numeric_def)
  have h3: "ex_numeric ''idMeal'' = Some (VFloat64 52774 0)"
    by (simp add: ex_numeric_def)
  from ImportFromFile_skips_missing_id[OF h1 h2] h1 h3 show ?thesis by blast
qed

lemma import_one_ok:
  assumes "idMeal_of m \<noteq> ''''" and "faults (db s) = None # fs"
  shows "fst (import_loop e clock [m] s) = None \<and>
         faults (db (snd (import_loop e clock [m] s))) = fs \<and>
         log (snd (import_loop e clock [m] s)) = log s"
  using assms
  by (simp add: Let_def UpdateOne_def update_one_def take_fault_def split: option.splits)

text \<open>
  An instance: two records, the second upsert meets \<open>connection reset by peer\<close>.
\<close>

theorem ImportFromFile_first_failure_witness:
  "read_raw (ex_env [ex_meal2, ex_meal] (Inl RedisNil) (ex_redis [])) ''all_meals.json''
     = Inr ([ex_meal2] @ ex_meal # []) \<and>
   fst (import_loop (ex_env [ex_meal2, ex_meal] (Inl RedisNil) (ex_redis [])) (ex_clock 5) [ex_meal2]
          (ex_store [] [None, Some (Failure ''connection reset by peer'')] None)) = None \<and>
   idMeal_of ex_meal \<noteq> '''' \<and>
   fst (ImportFromFile (ex_env [ex_meal2, ex_meal] (Inl RedisNil) (ex_redis []))
          (ex_store [] [None, Some (Failure ''connection reset by peer'')] None) ''all_meals.json''
          (ex_clock 5))
     = Some (Failure ''connection reset by peer'') \<and>
   log (snd (ImportFromFile (ex_env [ex_meal2, ex_meal] (Inl RedisNil) (ex_redis []))
          (ex_store [] [None, Some (Failure ''connection reset by peer'')] None) ''all_meals.json''
          (ex_clock 5)))
     = Some [(ErrorLevel, ''failed to upsert meal'',
              [(''id'', FString ''52772''), (''error'', FError (Failure ''connection reset by peer''))])]"
proof -
  let ?e = "ex_env [ex_meal2, ex_meal] (Inl RedisNil) (ex_redis [])"
  let ?s = "ex_store [] [None, Some (Failure ''connection reset by peer'')] None"
  define s1 where "s1 = snd (import_loop ?e (ex_clock 5) [ex_meal2] ?s)"
  have h1: "read_raw ?e ''all_meals.json'' = Inr ([ex_meal2] @ ex_meal # [])"
    by (simp add: read_raw_ex)
  have one: "fst (import_loop ?e (ex_clock 5) [ex_meal2] ?s) = None \<and>
             faults (db (snd (import_loop ?e (ex_clock 5) [ex_meal2] ?s))) =
               [Some (Failure ''connection reset by peer'')] \<and>
             log (snd (import_loop ?e (ex_clock 5) [ex_meal2] ?s)) = log ?s"
    by (rule import_one_ok) (simp_all add: idMeal_of_ex_meal2 ex_store_def ex_mongo_def)
  then have h0: "fst (import_loop ?e (ex_clock 5) [ex_meal2] ?s) = None"
    by blast
  then have h2: "import_loop ?e (ex_clock 5) [ex_meal2] ?s = (None, s1)"
    unfolding s1_def by (simp only: prod_eq_iff fst_conv snd_conv simp_thms)
  have h3: "idMeal_of ex_meal \<noteq> ''''"
    by (simp add: idMeal_of_ex_meal)
  from one have h4: "faults (db s1) = Some (Failure ''connection reset by peer'') # []"
    unfolding s1_def by blast
  from one have "log s1 = log ?s"
    unfolding s1_def by blast
  also have "log ?s = Some []"
    by (simp add: ex_store_def)
  finally have lg: "log s1 = Some []" .
  note t = ImportFromFile_first_failure[OF h1 h2 h3 h4]
  have "fst (ImportFromFile ?e ?s ''all_meals.json'' (ex_clock 5)) = Some (Failure ''connection reset by peer'')"
    by (simp add: t)
  moreover have "log (snd (ImportFromFile ?e ?s ''all_meals.json'' (ex_clock 5)))
     = Some [(ErrorLevel, ''failed to upsert meal'',
              [(''id'', FString ''52772''), (''error'', FError (Failure ''connection reset by peer''))])]"
    by (simp add: t lg idMeal_of_ex_meal)
  ultimately show ?thesis
    using h1 h0 h3 by blast
qed

text \<open>
  C3, as stated, fails: in the same run the error returned to the caller prints as
  \<open>connection reset by peer\<close>, which does not mention the key \<open>52772\<close> of the record
  whose upsert failed.
\<close>

theorem ImportFromFile_error_lacks_key:
  "fst (ImportFromFile (ex_env [ex_meal2, ex_meal] (Inl RedisNil) (ex_redis []))
          (ex_store [] [None, Some (Failure ''connection reset by peer'')] None) ''all_meals.json''
          (ex_clock 5))
     = Some (Failure ''connection reset by peer'') \<and>
   \<not> Contains (Error (Failure ''connection reset by peer'')) ''52772''"
proof -
  let ?e = "ex_env [ex_meal2, ex_meal] (Inl RedisNil) (ex_redis [])"
  let ?s = "ex_store [] [None, Some (Failure ''connection reset by peer'')] None"
  define s1 where "s1 = snd (import_loop ?e (ex_clock 5) [ex_meal2] ?s)"
  have one: "fst (import_loop ?e (ex_clock 5) [ex_meal2] ?s) = None \<and>
             faults (db (snd (import_loop ?e (ex_clock 5) [ex_meal2] ?s))) =
               [Some (Failure ''connection reset by peer'')] \<and>
             log (snd (import_loop ?e (ex_clock 5) [ex_meal2] ?s)) = log ?s"
    by (rule import_one_ok) (simp_all add: idMeal_of_ex_meal2 ex_store_def ex_mongo_def)
  then have "fst (import_loop ?e (ex_clock 5) [ex_meal2] ?s) = None"
    by blast
  then have h2: "import_loop ?e (ex_clock 5) [ex_meal2] ?s = (None, s1)"
    unfolding s1_def by (simp only: prod_eq_iff fst_conv snd_conv simp_thms)
  have h3: "idMeal_of ex_meal \<noteq> ''''"
    by (simp add: idMeal_of_ex_meal)
  from one have h4: "faults (db s1) = Some (Failure ''connection reset by peer'') # []"
    unfolding s1_def by blast
  have "import_loop ?e (ex_clock 5) ([ex_meal2] @ ex_meal # []) ?s =
          (Some (Failure ''connection reset by peer''),
            s1\<lparr>db := (db s1)\<lparr>faults := []\<rparr>,
               log := map_option (\<lambda>l. l @ [(ErrorLevel, ''failed to upsert meal'',
                                    [(''id'', FString (idMeal_of ex_meal)),
                                     (''error'', FError (Failure ''connection reset by peer''))])])
                                 (log s1)\<rparr>)"
    using h2 h3 h4 by (rule import_loop_failure)
  then have "fst (import_loop ?e (ex_clock 5) ([ex_meal2] @ ex_meal # []) ?s) =
               Some (Failure ''connection reset by peer'')"
    by (simp only: fst_conv)
  moreover have "ImportFromFile ?e ?s ''all_meals.json'' (ex_clock 5) =
                   import_loop ?e (ex_clock 5) ([ex_meal2] @ ex_meal # []) ?s"
    by (simp add: ImportFromFile_def read_raw_ex del: import_loop.simps)
  moreover have "\<not> Contains (Error (Failure ''connection reset by peer'')) ''52772''"
    by code_simp
  ultimately show ?thesis
    by (simp only: simp_thms)
qed

lemma ex_clock_0: "ex_clock t 0 = t"
  by (simp add: ex_clock_def)

lemma meal_doc_updatedAt:
  "(d ++ bson_doc (meal_doc e m k t)) ''updatedAt'' = Some (VDateTime (t div 1000000))"
  by (simp add: meal_doc_def bson_doc_def map_add_def)

lemma meal_doc_note: "(d ++ bson_doc (meal_doc e m k t)) ''note'' = d ''note''"
  by (simp add: meal_doc_def bson_doc_def map_add_def)

lemma stored_ex_doc: "stored (ex_store [ex_doc] fs rd) ''52772'' = Some ex_doc"
  by (simp add: stored_def ex_store_def ex_mongo_def has_id_def ex_doc_def)

text \<open>
  C2, as stated, fails. The collection holds a document for the key \<open>52772\<close> with a field
  \<open>note\<close>. The file of the one record \<open>52772\<close> is imported when the clock reads two
  seconds and again when it reads three seconds. After the first import the stored
  document has the datetime 2000 (in milliseconds) in \<open>updatedAt\<close>, after the second it
  has 3000, so the two runs do not leave the document of the single run; and the field
  \<open>note\<close> is still there after the import, so the upsert has merged into the stored
  document, not replaced it.
\<close>

theorem ImportFromFile_twice_not_identical:
  "field_of (stored (snd (ImportFromFile (ex_env [ex_meal] (Inl RedisNil) (ex_redis []))
                            (ex_store [ex_doc] [] None) ''all_meals.json''
                            (ex_clock 2000000000))) ''52772'')
            ''updatedAt'' = Some (VDateTime 2000) \<and>
   field_of (stored (snd (ImportFromFile (ex_env [ex_meal] (Inl RedisNil) (ex_redis []))
                            (snd (ImportFromFile (ex_env [ex_meal] (Inl RedisNil) (ex_redis []))
                                    (ex_store [ex_doc] [] None) ''all_meals.json''
                                    (ex_clock 2000000000)))
                            ''all_meals.json'' (ex_clock 3000000000))) ''52772'')
            ''updatedAt'' = Some (VDateTime 3000) \<and>
   field_of (stored (ex_store [ex_doc] [] None) ''52772'') ''note'' = Some (VString ''keep'') \<and>
   field_of (stored (snd (ImportFromFile (ex_env [ex_meal] (Inl RedisNil) (ex_redis []))
                            (ex_store [ex_doc] [] None) ''all_meals.json''
                            (ex_clock 2000000000))) ''52772'')
            ''note'' = Some (VString ''keep'')"
proof -
  let ?e = "ex_env [ex_meal] (Inl RedisNil) (ex_redis [])"
  let ?s = "ex_store [ex_doc] [] None"
  define a1 where "a1 = snd (ImportFromFile ?e ?s ''all_meals.json'' (ex_clock 2000000000))"
  have r: "read_raw ?e ''all_meals.json'' = Inr [ex_meal]"
    by (rule read_raw_ex)
  have f: "faults (db ?s) = []"
    by (simp add: ex_store_def ex_mongo_def)
  have i: "idMeal_of ex_meal \<noteq> ''''"
    by (simp add: idMeal_of_ex_meal)
  have s1: "stored a1 ''52772'' = Some (ex_doc ++ bson_doc (meal_doc ?e ex_meal ''52772'' 2000000000))"
    unfolding a1_def using import_single_stored[OF r f i, of "ex_clock 2000000000"]
    by (simp add: idMeal_of_ex_meal stored_ex_doc ex_clock_0)
  have f1: "faults (db a1) = []"
    unfolding a1_def using r f i by (rule import_single_faults)
  have s2: "stored (snd (ImportFromFile ?e a1 ''all_meals.json'' (ex_clock 3000000000))) ''52772'' =
              Some ((ex_doc ++ bson_doc (meal_doc ?e ex_meal ''52772'' 2000000000))
                    ++ bson_doc (meal_doc ?e ex_meal ''52772'' 3000000000))"
    using import_single_stored[OF r f1 i, of "ex_clock 3000000000"]
    by (simp add: idMeal_of_ex_meal s1 ex_clock_0)
  have n: "ex_doc ''note'' = Some (VString ''keep'')"
    by (simp add: ex_doc_def)
  have "field_of (stored a1 ''52772'') ''updatedAt'' = Some (VDateTime 2000)"
    by (simp add: s1 field_of_def meal_doc_updatedAt)
  moreover have "field_of (stored (snd (ImportFromFile ?e a1 ''all_meals.json'' (ex_clock 3000000000))) ''52772'')
                   ''updatedAt'' = Some (VDateTime 3000)"
    by (simp add: s2 field_of_def meal_doc_updatedAt)
  moreover have "field_of (stored ?s ''52772'') ''note'' = Some (VString ''keep'')"
    by (simp add: stored_ex_doc field_of_def n)
  moreover have "field_of (stored a1 ''52772'') ''note'' = Some (VString ''keep'')"
    by (simp add: s1 field_of_def meal_doc_note n)
  ultimately show ?thesis
    unfolding a1_def by blast
qed

text \<open>
  An instance of C2: one record, imported into an empty collection when the clock reads
  one second and again when it reads two seconds.
\<close>

theorem ImportFromFile_twice_witness:
  "read_raw (ex_env [ex_meal] (Inl RedisNil) (ex_redis [])) ''all_meals.json'' = Inr [ex_meal] \<and>
   faults (db (ex_store [] [] None)) = [] \<and>
   idMeal_of ex_meal \<noteq> '''' \<and>
   fst (ImportFromFile (ex_env [ex_meal] (Inl RedisNil) (ex_redis []))
          (snd (ImportFromFile (ex_env [ex_meal] (Inl RedisNil) (ex_redis []))
                  (ex_store [] [] None) ''all_meals.json'' (ex_clock 1000000000)))
          ''all_meals.json'' (ex_clock 2000000000)) = None \<and>
   except_updatedAt
     (snd (ImportFromFile (ex_env [ex_meal] (Inl RedisNil) (ex_redis []))
             (snd (ImportFromFile (ex_env [ex_meal] (Inl RedisNil) (ex_redis []))
                     (ex_store [] [] None) ''all_meals.json'' (ex_clock 1000000000)))
             ''all_meals.json'' (ex_clock 2000000000))) =
   except_updatedAt
     (snd (ImportFromFile (ex_env [ex_meal] (Inl RedisNil) (ex_redis []))
             (ex_store [] [] None) ''all_meals.json'' (ex_clock 1000000000))) \<and>
   ImportFromFile (ex_env [ex_meal] (Inl RedisNil) (ex_redis []))
     (snd (ImportFromFile (ex_env [ex_meal] (Inl RedisNil) (ex_redis []))
             (ex_store [] [] None) ''all_meals.json'' (ex_clock 1000000000)))
     ''all_meals.json'' (ex_clock 2000000000) =
   ImportFromFile (ex_env [ex_meal] (Inl RedisNil) (ex_redis []))
     (ex_store [] [] None) ''all_meals.json'' (ex_clock 2000000000) \<and>
   stored (snd (ImportFromFile (ex_env [ex_meal] (Inl RedisNil) (ex_redis []))
                  (ex_store [] [] None) ''all_meals.json'' (ex_clock 1000000000)))
          (idMeal_of ex_meal) =
     Some ((case stored (ex_store [] [] None) (idMeal_of ex_meal) of
              Some d \<Rightarrow> d
            | None \<Rightarrow> [''_id'' \<mapsto> VObjectID (next_id (db (ex_store [] [] None))),
                       ''idMeal'' \<mapsto> VString (idMeal_of ex_meal)])
           ++ bson_doc (meal_doc (ex_env [ex_meal] (Inl RedisNil) (ex_redis [])) ex_meal
                          (idMeal_of ex_meal) (ex_clock 1000000000 0)))"
proof -
  have r: "read_raw (ex_env [ex_meal] (Inl RedisNil) (ex_redis [])) ''all_meals.json'' = Inr [ex_meal]"
    by (rule read_raw_ex)
  have f: "faults (db (ex_store [] [] None)) = []"
    by (simp add: ex_store_def ex_mongo_def)
  have i: "idMeal_of ex_meal \<noteq> ''''"
    by (simp add: idMeal_of_ex_meal)
  from ImportFromFile_twice[OF r f, where ?clock1.0 = "ex_clock 1000000000"
        and ?clock2.0 = "ex_clock 2000000000" and r = ex_meal] r f i
  show ?thesis
    by blast
qed

lemma has_id_ex_doc: "has_id ''52772'' ex_doc"
  by (simp add: has_id_def ex_doc_def)

lemma not_has_id_ex_doc: "\<not> has_id ''99999'' ex_doc"
  by (simp add: has_id_def ex_doc_def)

lemma FindOne_ex_doc:
  "FindOne (ex_mongo [ex_doc] []) ''52772'' = (Inr ex_doc, ex_mongo [ex_doc] [])"
  by (simp add: FindOne_def take_fault_def ex_mongo_def has_id_ex_doc)

lemma FindOne_ex_plain:
  "FindOne (ex_mongo [ex_plain] []) ''52775'' = (Inr ex_plain, ex_mongo [ex_plain] [])"
  by (simp add: FindOne_def take_fault_def ex_mongo_def has_id_def ex_plain_def)

lemma cache_lookup_ex_empty:
  "cache_lookup e (ex_store ds fs (Some (ex_redis []))) key now = (None, Some (ex_redis []))"
  by (simp add: cache_lookup_def redis_Get_def take_fault_def ex_store_def ex_redis_def)

lemma json_native_ex_plain: "json_native (VMap ex_plain)"
  unfolding ex_plain_def
  by (rule json_native.intros) (auto split: if_splits intro: json_native.intros)

lemma hex_7: "hex 24 7 = ''000000000000000000000007''"
  by code_simp

lemma pad2_0: "pad2 0 = ''00''"
  by code_simp

lemma pad2_1: "pad2 (Suc 0) = ''01''"
  by code_simp

lemma ex_time_text_1s: "ex_time_text 1000000000 = ''1970-01-01T00:00:01Z''"
  by (simp add: ex_time_text_def pad2_0 pad2_1)

text \<open>
  An instance: a reachable, empty cache and a primary store that holds a document of
  strings only, which the second call returns as it is although the primary store has
  lost its documents and times out by then.
\<close>

theorem GetMealByID_cache_aside_witness:
  "cache_lookup (ex_env [] (Inl RedisNil) (ex_redis []))
       (ex_store [ex_plain] [] (Some (ex_redis []))) (''meal:'' @ ''52775'') 1000
     = (None, Some (ex_redis [])) \<and>
   FindOne (db (ex_store [ex_plain] [] (Some (ex_redis [])))) ''52775''
     = (Inr ex_plain, ex_mongo [ex_plain] []) \<and>
   rfaults (ex_redis []) = [] \<and>
   2000 < 1000 + 24 * Hour \<and>
   json_native (VMap ex_plain) \<and>
   fst (GetMealByID (ex_env [] (Inl RedisNil) (ex_redis []))
          (ex_store [ex_plain] [] (Some (ex_redis []))) ''52775'' 1000) = Inr (Some ex_plain) \<and>
   rdb (snd (GetMealByID (ex_env [] (Inl RedisNil) (ex_redis []))
               (ex_store [ex_plain] [] (Some (ex_redis []))) ''52775'' 1000)) =
     Some ((ex_redis [])\<lparr>entries := (entries (ex_redis []))
             (''meal:'' @ ''52775'' \<mapsto>
                (JSONText (JObject (map_option
                    (encode (RFC3339 (ex_env [] (Inl RedisNil) (ex_redis [])))) \<circ> ex_plain)),
                 1000 + 24 * Hour))\<rparr>) \<and>
   GetMealByID (ex_env [] (Inl RedisNil) (ex_redis []))
     ((snd (GetMealByID (ex_env [] (Inl RedisNil) (ex_redis []))
              (ex_store [ex_plain] [] (Some (ex_redis []))) ''52775'' 1000))
        \<lparr>db := ex_mongo [] [Some (Failure ''server selection timeout'')]\<rparr>) ''52775'' 2000 =
     (Inr (Some ex_plain),
      (snd (GetMealByID (ex_env [] (Inl RedisNil) (ex_redis []))
              (ex_store [ex_plain] [] (Some (ex_redis []))) ''52775'' 1000))
        \<lparr>db := ex_mongo [] [Some (Failure ''server selection timeout'')]\<rparr>)"
proof -
  let ?e = "ex_env [] (Inl RedisNil) (ex_redis [])"
  let ?s = "ex_store [ex_plain] [] (Some (ex_redis []))"
  have h1: "cache_lookup ?e ?s (''meal:'' @ ''52775'') 1000 = (None, Some (ex_redis []))"
    by (rule cache_lookup_ex_empty)
  have h2: "FindOne (db ?s) ''52775'' = (Inr ex_plain, ex_mongo [ex_plain] [])"
    using FindOne_ex_plain by (simp add: ex_store_def)
  have h4: "rfaults (ex_redis []) = []"
    by (simp add: ex_redis_def)
  have h5: "json_native (VMap ex_plain)"
    by (rule json_native_ex_plain)
  have h6: "(2000::nat) < 1000 + 24 * Hour"
    by (simp add: Hour_def)
  let ?down = "ex_mongo [] [Some (Failure ''server selection timeout'')]"
  note t = GetMealByID_cache_aside[OF h1 h2, where now' = 2000 and c' = ?down]
  from t h5 have copy: "json_copy ?e ex_plain = ex_plain"
    by blast
  from t h4 h6 have "GetMealByID ?e ((snd (GetMealByID ?e ?s ''52775'' 1000))\<lparr>db := ?down\<rparr>) ''52775'' 2000 =
     (Inr (Some (json_copy ?e ex_plain)), (snd (GetMealByID ?e ?s ''52775'' 1000))\<lparr>db := ?down\<rparr>)"
    by blast
  then have second: "GetMealByID ?e ((snd (GetMealByID ?e ?s ''52775'' 1000))\<lparr>db := ?down\<rparr>) ''52775'' 2000 =
     (Inr (Some ex_plain), (snd (GetMealByID ?e ?s ''52775'' 1000))\<lparr>db := ?down\<rparr>)"
    by (simp only: copy)
  from t h1 h2 h4 h5 h6 second show ?thesis
    by blast
qed

text \<open>
  C4, as stated, fails. The primary store holds \<open>ex_doc\<close>, whose \<open>_id\<close> is the object id
  the server gave it and whose \<open>updatedAt\<close> is a datetime, and the cache is reachable and
  empty. The first call returns the document with that object id and that datetime; the
  second call, one microsecond later and served from the cache, returns a map whose
  \<open>_id\<close> is the string of the id's hexadecimal digits and whose \<open>updatedAt\<close> is the
  string of the RFC 3339 text: not the same document.
\<close>

theorem GetMealByID_cached_copy_differs:
  "field_of (returned (fst (GetMealByID (ex_env [] (Inl RedisNil) (ex_redis []))
                              (ex_store [ex_doc] [] (Some (ex_redis []))) ''52772'' 1000)))
            ''_id'' = Some (VObjectID 7) \<and>
   field_of (returned (fst (GetMealByID (ex_env [] (Inl RedisNil) (ex_redis []))
                              (snd (GetMealByID (ex_env [] (Inl RedisNil) (ex_redis []))
                                      (ex_store [ex_doc] [] (Some (ex_redis []))) ''52772'' 1000))
                              ''52772'' 2000)))
            ''_id'' = Some (VString ''000000000000000000000007'') \<and>
   field_of (returned (fst (GetMealByID (ex_env [] (Inl RedisNil) (ex_redis []))
                              (ex_store [ex_doc] [] (Some (ex_redis []))) ''52772'' 1000)))
            ''updatedAt'' = Some (VDateTime 1000) \<and>
   field_of (returned (fst (GetMealByID (ex_env [] (Inl RedisNil) (ex_redis []))
                              (snd (GetMealByID (ex_env [] (Inl RedisNil) (ex_redis []))
                                      (ex_store [ex_doc] [] (Some (ex_redis []))) ''52772'' 1000))
                              ''52772'' 2000)))
            ''updatedAt'' = Some (VString ''1970-01-01T00:00:01Z'')"
proof -
  let ?e = "ex_env [] (Inl RedisNil) (ex_redis [])"
  let ?s = "ex_store [ex_doc] [] (Some (ex_redis []))"
  define s1 where "s1 = snd (GetMealByID ?e ?s ''52772'' 1000)"
  have h1: "cache_lookup ?e ?s (''meal:'' @ ''52772'') 1000 = (None, Some (ex_redis []))"
    by (rule cache_lookup_ex_empty)
  have h2: "FindOne (db ?s) ''52772'' = (Inr ex_doc, ex_mongo [ex_doc] [])"
    using FindOne_ex_doc by (simp add: ex_store_def)
  have f: "rfaults (ex_redis []) = []"
    by (simp add: ex_redis_def)
  have t: "(2000::nat) < 1000 + 24 * Hour"
    by (simp add: Hour_def)
  have g1: "GetMealByID ?e ?s ''52772'' 1000 =
              (Inr (Some ex_doc),
               ?s\<lparr>db := ex_mongo [ex_doc] [],
                   rdb := cache_populate ?e (Some (ex_redis [])) (''meal:'' @ ''52772'') ex_doc 1000\<rparr>)"
    using h1 h2 by (rule GetMealByID_first)
  have r1: "rdb s1 = Some ((ex_redis [])\<lparr>entries := (entries (ex_redis []))
                 (''meal:'' @ ''52772'' \<mapsto>
                    (JSONText (JObject (map_option (encode (RFC3339 ?e)) \<circ> ex_doc)),
                     1000 + 24 * Hour))\<rparr>)"
    unfolding s1_def g1 cache_populate_ok[OF f] by simp
  have g2: "GetMealByID ?e s1 ''52772'' 2000 = (Inr (Some (json_copy ?e ex_doc)), s1)"
    using f t r1 by (rule GetMealByID_second)
  have a: "field_of (returned (fst (GetMealByID ?e ?s ''52772'' 1000))) ''_id'' = Some (VObjectID 7)"
    unfolding g1 by (simp add: returned_def field_of_def ex_doc_def)
  have "json_copy ?e ex_doc ''_id'' = Some (VString (hex 24 7))"
    by (simp add: json_copy_def ex_doc_def)
  then have b: "field_of (returned (fst (GetMealByID ?e s1 ''52772'' 2000))) ''_id'' =
                  Some (VString ''000000000000000000000007'')"
    unfolding g2 by (simp add: returned_def field_of_def hex_7)
  have a': "field_of (returned (fst (GetMealByID ?e ?s ''52772'' 1000))) ''updatedAt'' =
              Some (VDateTime 1000)"
    unfolding g1 by (simp add: returned_def field_of_def ex_doc_def)
  have "json_copy ?e ex_doc ''updatedAt'' = Some (VString (ex_time_text 1000000000))"
    by (simp add: json_copy_def ex_doc_def ex_env_def)
  then have b': "field_of (returned (fst (GetMealByID ?e s1 ''52772'' 2000))) ''updatedAt'' =
                  Some (VString ''1970-01-01T00:00:01Z'')"
    unfolding g2 by (simp add: returned_def field_of_def ex_time_text_1s)
  from a b a' b' show ?thesis
    unfolding s1_def by blast
qed

text \<open>
  An instance of each: an unknown key with both services reachable, a primary store that
  times out, and a cache that refuses the connection.
\<close>

theorem GetMealByID_not_found_and_errors_witness:
  "fst (cache_lookup (ex_env [] (Inl RedisNil) (ex_redis []))
          (ex_store [ex_doc] [] (Some (ex_redis []))) (''meal:'' @ ''99999'') 1000) = None \<and>
   fst (take_fault (faults (db (ex_store [ex_doc] [] (Some (ex_redis [])))))) = None \<and>
   stored (ex_store [ex_doc] [] (Some (ex_redis []))) ''99999'' = None \<and>
   fst (GetMealByID (ex_env [] (Inl RedisNil) (ex_redis []))
          (ex_store [ex_doc] [] (Some (ex_redis []))) ''99999'' 1000) = Inr None \<and>
   fst (GetMealByID (ex_env [] (Inl RedisNil) (ex_redis []))
          (ex_store [ex_doc] [Some (Failure ''server selection timeout'')] None) ''52772'' 1000)
     = Inl (Failure ''server selection timeout'') \<and>
   fst (FindOne (db (ex_store [ex_doc] [Some (Failure ''server selection timeout'')] None)) ''52772'')
     = Inl (Failure ''server selection timeout'') \<and>
   Failure ''server selection timeout'' \<noteq> ErrNoDocuments \<and>
   rdb (ex_store [ex_doc] [] (Some (ex_redis [Some (Failure ''connection refused'')])))
     = Some (ex_redis [Some (Failure ''connection refused'')]) \<and>
   (case fst (redis_Get (ex_redis [Some (Failure ''connection refused'')]) (''meal:'' @ ''52772'') 1000) of
      Inl err \<Rightarrow> True
    | Inr b \<Rightarrow> isl (Unmarshal b)) \<and>
   fst (GetMealByID (ex_env [] (Inl RedisNil) (ex_redis []))
          (ex_store [ex_doc] [] (Some (ex_redis [Some (Failure ''connection refused'')]))) ''52772'' 1000)
     = fst (GetMealByID (ex_env [] (Inl RedisNil) (ex_redis []))
              ((ex_store [ex_doc] [] (Some (ex_redis [Some (Failure ''connection refused'')])))
                 \<lparr>rdb := None\<rparr>) ''52772'' 1000)"
proof -
  let ?e = "ex_env [] (Inl RedisNil) (ex_redis [])"
  let ?s = "ex_store [ex_doc] [] (Some (ex_redis []))"
  let ?s1 = "ex_store [ex_doc] [Some (Failure ''server selection timeout'')] None"
  let ?r = "ex_redis [Some (Failure ''connection refused'')]"
  let ?s2 = "ex_store [ex_doc] [] (Some ?r)"
  have a1: "fst (cache_lookup ?e ?s (''meal:'' @ ''99999'') 1000) = None"
    by (simp add: cache_lookup_def redis_Get_def take_fault_def ex_store_def ex_redis_def)
  have a2: "fst (take_fault (faults (db ?s))) = None"
    by (simp add: take_fault_def ex_store_def ex_mongo_def)
  have a3: "stored ?s ''99999'' = None"
    by (simp add: stored_def ex_store_def ex_mongo_def not_has_id_ex_doc)
  have b0: "cache_lookup ?e ?s1 (''meal:'' @ ''52772'') 1000 = (None, None)"
    by (simp add: cache_lookup_def ex_store_def)
  have b1: "fst (GetMealByID ?e ?s1 ''52772'' 1000) = Inl (Failure ''server selection timeout'')"
    unfolding GetMealByID_no_hit[OF b0]
    by (simp add: FindOne_def take_fault_def ex_store_def ex_mongo_def)
  have c1: "rdb ?s2 = Some ?r"
    by (simp add: ex_store_def)
  have c2: "case fst (redis_Get ?r (''meal:'' @ ''52772'') 1000) of
              Inl err \<Rightarrow> True | Inr b \<Rightarrow> isl (Unmarshal b)"
    by (simp add: redis_Get_def take_fault_def ex_redis_def)
  note t = GetMealByID_not_found_and_errors[where e = ?e and s = ?s and k = "''99999''" and now = 1000
                and ?e1.0 = ?e and ?s1.0 = ?s1 and ?k1.0 = "''52772''" and ?now1.0 = 1000
                and err = "Failure ''server selection timeout''"
                and ?s2.0 = ?s2 and r = ?r and ?k2.0 = "''52772''" and ?now2.0 = 1000 and ?e2.0 = ?e]
  from t a1 a2 a3 b1 c1 c2 show ?thesis
    by blast
qed

text \<open>
  An instance of each: a connection that fails, a ping that times out, and a cache that
  refuses the connection while the primary store holds a document, which is then served.
\<close>

theorem New_degraded_mode_witness:
  "mongo_Connect (ex_env [] (Inl (Failure ''invalid URI'')) (ex_redis [])) ''mongo:27017'' ''meal_prep''
     = Inl (Failure ''invalid URI'') \<and>
   New (ex_env [] (Inl (Failure ''invalid URI'')) (ex_redis [])) ''mongo:27017'' ''meal_prep''
       ''redis:6379'' (Some []) =
     Inl (Failure ''invalid URI'',
          map_option (\<lambda>l. Errorw l ''mongo connect failed'' [(''error'', FError (Failure ''invalid URI''))])
            (Some [])) \<and>
   mongo_Connect (ex_env [] (Inr (ex_mongo [] [Some (Failure ''server selection timeout'')])) (ex_redis []))
       ''mongodb://mongo:27017'' ''meal_prep''
     = Inr (ex_mongo [] [Some (Failure ''server selection timeout'')]) \<and>
   fst (Ping (ex_mongo [] [Some (Failure ''server selection timeout'')]))
     = Some (Failure ''server selection timeout'') \<and>
   New (ex_env [] (Inr (ex_mongo [] [Some (Failure ''server selection timeout'')])) (ex_redis []))
       ''mongodb://mongo:27017'' ''meal_prep'' ''redis:6379'' (Some []) =
     Inl (Failure ''server selection timeout'',
          map_option (\<lambda>l. Errorw l ''mongo ping failed''
                             [(''error'', FError (Failure ''server selection timeout''))])
            (Some [])) \<and>
   mongo_Connect (ex_env [] (Inr (ex_mongo [ex_doc] []))
                    (ex_redis [Some (Failure ''connection refused'')]))
       ''mongodb://mongo:27017'' ''meal_prep''
     = Inr (ex_mongo [ex_doc] []) \<and>
   fst (Ping (ex_mongo [ex_doc] [])) = None \<and>
   ''redis:6379'' \<noteq> '''' \<and>
   fst (redis_Ping (redis_NewClient (ex_env [] (Inr (ex_mongo [ex_doc] []))
                                       (ex_redis [Some (Failure ''connection refused'')]))
                      ''redis:6379''))
     = Some (Failure ''connection refused'') \<and>
   (\<exists>st. New (ex_env [] (Inr (ex_mongo [ex_doc] [])) (ex_redis [Some (Failure ''connection refused'')]))
              ''mongodb://mongo:27017'' ''meal_prep'' ''redis:6379'' (Some []) = Inr st \<and>
         rdb st = None \<and>
         log st = Some [(WarnLevel, ''redis ping failed; continuing without redis caching'',
                         [(''error'', FError (Failure ''connection refused''))])] \<and>
         docs (db st) = [ex_doc] \<and>
         fst (GetMealByID (ex_env [] (Inr (ex_mongo [ex_doc] []))
                             (ex_redis [Some (Failure ''connection refused'')])) st ''52772'' 1000)
           = Inr (Some ex_doc))"
proof -
  let ?e = "ex_env [] (Inl (Failure ''invalid URI'')) (ex_redis [])"
  let ?e1 = "ex_env [] (Inr (ex_mongo [] [Some (Failure ''server selection timeout'')])) (ex_redis [])"
  let ?e2 = "ex_env [] (Inr (ex_mongo [ex_doc] [])) (ex_redis [Some (Failure ''connection refused'')])"
  have a: "mongo_Connect ?e ''mongo:27017'' ''meal_prep'' = Inl (Failure ''invalid URI'')"
    by (simp add: ex_env_def)
  have b1: "mongo_Connect ?e1 ''mongodb://mongo:27017'' ''meal_prep''
              = Inr (ex_mongo [] [Some (Failure ''server selection timeout'')])"
    by (simp add: ex_env_def)
  have b2: "fst (Ping (ex_mongo [] [Some (Failure ''server selection timeout'')]))
              = Some (Failure ''server selection timeout'')"
    by (simp add: Ping_def take_fault_def ex_mongo_def)
  have c1: "mongo_Connect ?e2 ''mongodb://mongo:27017'' ''meal_prep'' = Inr (ex_mongo [ex_doc] [])"
    by (simp add: ex_env_def)
  have c2: "fst (Ping (ex_mongo [ex_doc] [])) = None"
    by (simp add: Ping_def take_fault_def ex_mongo_def)
  have c3: "''redis:6379'' \<noteq> ''''"
    by simp
  have c4: "fst (redis_Ping (redis_NewClient ?e2 ''redis:6379'')) = Some (Failure ''connection refused'')"
    by (simp add: redis_Ping_def take_fault_def ex_env_def ex_redis_def)
  note t = New_degraded_mode[where e = ?e and uri = "''mongo:27017''" and dbn = "''meal_prep''"
                and err = "Failure ''invalid URI''" and addr = "''redis:6379''" and sugar = "Some []"
                and ?e1.0 = ?e1 and ?uri1.0 = "''mongodb://mongo:27017''" and ?dbn1.0 = "''meal_prep''"
                and ?client1.0 = "ex_mongo [] [Some (Failure ''server selection timeout'')]"
                and ?err1.0 = "Failure ''server selection timeout''"
                and ?addr1.0 = "''redis:6379''" and ?sugar1.0 = "Some []"
                and ?e2.0 = ?e2 and ?uri2.0 = "''mongodb://mongo:27017''" and ?dbn2.0 = "''meal_prep''"
                and ?client2.0 = "ex_mongo [ex_doc] []" and ?addr2.0 = "''redis:6379''"
                and ?err2.0 = "Failure ''connection refused''" and ?sugar2.0 = "Some []"]
  from t a have A: "New ?e ''mongo:27017'' ''meal_prep'' ''redis:6379'' (Some []) =
     Inl (Failure ''invalid URI'',
          map_option (\<lambda>l. Errorw l ''mongo connect failed'' [(''error'', FError (Failure ''invalid URI''))])
            (Some []))"
    by blast
  from t b1 b2 have B: "New ?e1 ''mongodb://mongo:27017'' ''meal_prep'' ''redis:6379'' (Some []) =
     Inl (Failure ''server selection timeout'',
          map_option (\<lambda>l. Errorw l ''mongo ping failed''
                             [(''error'', FError (Failure ''server selection timeout''))])
            (Some []))"
    by blast
  from t c1 c2 c3 c4 obtain st where
    st: "New ?e2 ''mongodb://mongo:27017'' ''meal_prep'' ''redis:6379'' (Some []) = Inr st"
      "rdb st = None"
      "log st = map_option (\<lambda>l. Warnw l ''redis ping failed; continuing without redis caching''
                                     [(''error'', FError (Failure ''connection refused''))]) (Some [])"
      "docs (db st) = docs (ex_mongo [ex_doc] [])"
      "\<And>k now. fst (GetMealByID ?e2 st k now) =
                  (case fst (FindOne (db st) k) of
                     Inl er \<Rightarrow> if er = ErrNoDocuments then Inr None else Inl er
                   | Inr d \<Rightarrow> Inr (Some d))"
    by blast
  have f: "faults (db st) = []"
    using st(1) c1 c2 c3 c4
    by (auto simp add: New_def Ping_def CreateOne_def redis_Ping_def take_fault_def ex_env_def
                  ex_mongo_def ex_redis_def)
  have "fst (FindOne (db st) ''52772'') = Inr ex_doc"
    using st(4) f by (simp add: FindOne_def take_fault_def ex_mongo_def has_id_ex_doc)
  with st(5)[of "''52772''" 1000] have g: "fst (GetMealByID ?e2 st ''52772'' 1000) = Inr (Some ex_doc)"
    by simp
  have l: "log st = Some [(WarnLevel, ''redis ping failed; continuing without redis caching'',
                         [(''error'', FError (Failure ''connection refused''))])]"
    using st(3) by (simp add: Warnw_def)
  have d: "docs (db st) = [ex_doc]"
    using st(4) by (simp add: ex_mongo_def)
  from st(1,2) l d g have C: "\<exists>st. New ?e2 ''mongodb://mongo:27017'' ''meal_prep'' ''redis:6379'' (Some []) = Inr st \<and>
         rdb st = None \<and>
         log st = Some [(WarnLevel, ''redis ping failed; continuing without redis caching'',
                         [(''error'', FError (Failure ''connection refused''))])] \<and>
         docs (db st) = [ex_doc] \<and>
         fst (GetMealByID ?e2 st ''52772'' 1000) = Inr (Some ex_doc)"
    by blast
  from a A b1 b2 B c1 c2 c3 c4 C show ?thesis
    by blast
qed

end
